theory Spec2Isabelle
  imports Complex_Main "HOL-Library.AList" "HOL-Library.Sublist" "HOL-Library.Log_Nat"
begin

section \<open>Chat history (app/ui/chat\_interface.py, app/config.py)\<close>

text \<open>
  A chat message is the dictionary \<^verbatim>\<open>{"role": role, "content": content, **kwargs}\<close>.
  The keyword arguments are kept as an association list of rendered values.
\<close>

record message =
  role :: string
  content :: string
  kwargs :: "(string \<times> string) list"

text \<open>\<^verbatim>\<open>MAX_HISTORY_LENGTH = 20\<close> of config.py (a module constant).\<close>

definition MAX_HISTORY_LENGTH :: int where
  "MAX_HISTORY_LENGTH = 20"

text \<open>
  Python's \<^verbatim>\<open>xs[i:]\<close>: a negative start counts from the end and is clamped at the
  beginning of the list, a start beyond the end gives the empty list.
\<close>

definition slice_from :: "'a list \<Rightarrow> int \<Rightarrow> 'a list" where
  "slice_from xs i =
     (if i < 0 then drop (nat (int (length xs) + i)) xs else drop (nat i) xs)"

text \<open>
  \<^verbatim>\<open>add_message\<close>: the session's message list is the state; the function returns the
  new list.
\<close>

definition add_message :: "message list \<Rightarrow> message \<Rightarrow> message list" where
  "add_message messages m =
     (let messages' = messages @ [m]
      in if int (length messages') > MAX_HISTORY_LENGTH
         then slice_from messages' (- MAX_HISTORY_LENGTH)
         else messages')"

text \<open>A run of \<^verbatim>\<open>add_message\<close> calls, oldest first.\<close>

definition add_messages :: "message list \<Rightarrow> message list \<Rightarrow> message list" where
  "add_messages messages ms = foldl add_message messages ms"

text \<open>A numbered user message, for concrete runs.\<close>

definition numbered_message :: "nat \<Rightarrow> message" where
  "numbered_message k = \<lparr>role = ''user'', content = replicate k (CHR ''x''), kwargs = []\<rparr>"

section \<open>Python values shared by the modules\<close>

text \<open>
  A text that the program only stores, compares and joins is a \<open>string\<close>. A text whose
  characters it inspects (the evaluator and the answer generator) is a list of code
  points, \<open>pystr\<close> below.

  Exceptions are values, each with its message, a text of the type \<open>'s\<close>.
\<close>

datatype 's py_exc =
    ValueError 's
  | UnboundLocalError 's
  | KeyError 's
  | IndexError 's
  | AttributeError 's
  | OtherError 's

type_synonym py_exception = "string py_exc"

text \<open>Decimal rendering of a natural number, as an f-string prints an \<^verbatim>\<open>int\<close>.\<close>

definition digit_char :: "nat \<Rightarrow> char" where
  "digit_char d = ''0123456789'' ! d"

fun str_of_nat :: "nat \<Rightarrow> string" where
  "str_of_nat n =
     (if 9 < n then str_of_nat (n div 10) @ [digit_char (n mod 10)] else [digit_char n])"

text \<open>Python's \<^verbatim>\<open>xs[i:j]\<close> for \<open>0 \<le> i \<le> j\<close>.\<close>

definition slice :: "'a list \<Rightarrow> nat \<Rightarrow> nat \<Rightarrow> 'a list" where
  "slice xs i j = take (j - i) (drop i xs)"

text \<open>Python's \<^verbatim>\<open>d or default\<close> on an optional integer: \<^verbatim>\<open>None\<close> and \<^verbatim>\<open>0\<close> are falsy.\<close>

definition int_or :: "int option \<Rightarrow> int \<Rightarrow> int" where
  "int_or d dflt = (case d of None \<Rightarrow> dflt | Some v \<Rightarrow> if v = 0 then dflt else v)"

section \<open>Embedding provider (app/models/custom\_embeddings.py)\<close>

type_synonym vector = "real list"

text \<open>The fields of a \<^verbatim>\<open>CustomLocalEmbeddings\<close> instance.\<close>

record custom_local_embeddings =
  base_url :: string
  api_key :: string
  model :: string
  dimensions :: "int option"
  encoding_format :: string

text \<open>The JSON body posted to \<^verbatim>\<open>{base_url}/embeddings\<close>.\<close>

record payload =
  p_input :: "string list"
  p_model :: string
  p_encoding_format :: string
  p_dimensions :: "int option"

definition create_embedding_request :: "custom_local_embeddings \<Rightarrow> string list \<Rightarrow> payload" where
  "create_embedding_request self texts =
     \<lparr>p_input = texts, p_model = model self, p_encoding_format = encoding_format self,
      p_dimensions = dimensions self\<rparr>"

text \<open>
  The decoded response body: the value under \<^verbatim>\<open>"data"\<close> (absent: \<open>None\<close>) is a list of
  items, each with a value under \<^verbatim>\<open>"embedding"\<close> (absent: \<open>None\<close>).
\<close>

type_synonym json_response = "vector option list option"

text \<open>
  What \<^verbatim>\<open>requests.post\<close>, \<^verbatim>\<open>raise_for_status\<close> and \<^verbatim>\<open>response.json()\<close> can do:
  the post itself raises (no response object exists), the status is an error status,
  the body is not JSON, or a decoded body comes back.
\<close>

datatype http_outcome =
    ConnectionFailed string
  | BadStatus nat string
  | BadBody nat string
  | Decoded json_response

text \<open>
  The network is outside the program: the outcome of a request may depend on how many
  requests were made before it and on its payload. The state threaded through the
  provider is the log of the payloads posted so far.
\<close>

type_synonym network = "nat \<Rightarrow> payload \<Rightarrow> http_outcome"

text \<open>
  \<^verbatim>\<open>_make_embedding_request\<close>. When the post itself raises, the handler reads the
  local \<^verbatim>\<open>response\<close>, which was never bound, and Python raises
  \<^verbatim>\<open>UnboundLocalError\<close> from inside the handler.
\<close>

definition make_embedding_request ::
  "network \<Rightarrow> payload list \<Rightarrow> payload \<Rightarrow> (py_exception + json_response) \<times> payload list" where
  "make_embedding_request net sent p =
     ((case net (length sent) p of
         ConnectionFailed e \<Rightarrow>
           Inl (UnboundLocalError ''cannot access local variable response'')
       | BadStatus code body \<Rightarrow>
           Inl (ValueError (''API request failed: '' @ str_of_nat code @ '' - '' @ body))
       | BadBody code body \<Rightarrow>
           Inl (ValueError (''API request failed: '' @ str_of_nat code @ '' - '' @ body))
       | Decoded js \<Rightarrow> Inr js),
      sent @ [p])"

text \<open>\<^verbatim>\<open>[item["embedding"] for item in response["data"]]\<close>.\<close>

definition extract_embeddings :: "json_response \<Rightarrow> py_exception + vector list" where
  "extract_embeddings js =
     (case js of
        None \<Rightarrow> Inl (KeyError ''data'')
      | Some items \<Rightarrow>
          (case those items of
             None \<Rightarrow> Inl (KeyError ''embedding'')
           | Some vs \<Rightarrow> Inr vs))"

text \<open>The \<^verbatim>\<open>try\<close> block of the loop body in \<^verbatim>\<open>embed_documents\<close>.\<close>

definition try_embed_batch ::
  "custom_local_embeddings \<Rightarrow> network \<Rightarrow> string list \<Rightarrow> payload list
     \<Rightarrow> (py_exception + vector list) \<times> payload list" where
  "try_embed_batch self net batch sent =
     (case make_embedding_request net sent (create_embedding_request self batch) of
        (Inl e, sent') \<Rightarrow> (Inl e, sent')
      | (Inr js, sent') \<Rightarrow> (extract_embeddings js, sent'))"

text \<open>\<^verbatim>\<open>[[0.0] * (self.dimensions or 384)] * len(batch)\<close>.\<close>

definition zero_fallback :: "custom_local_embeddings \<Rightarrow> string list \<Rightarrow> vector list" where
  "zero_fallback self batch =
     replicate (length batch) (replicate (nat (int_or (dimensions self) 384)) 0)"

text \<open>The loop body with its \<^verbatim>\<open>except Exception\<close> handler: what is appended, and the log.\<close>

definition embed_batch ::
  "custom_local_embeddings \<Rightarrow> network \<Rightarrow> string list \<Rightarrow> payload list
     \<Rightarrow> vector list \<times> payload list" where
  "embed_batch self net batch sent =
     (case try_embed_batch self net batch sent of
        (Inr batch_embeddings, sent') \<Rightarrow> (batch_embeddings, sent')
      | (Inl e, sent') \<Rightarrow> (zero_fallback self batch, sent'))"

definition batch_size :: nat where
  "batch_size = 3"

text \<open>\<^verbatim>\<open>for i in range(0, len(texts), batch_size)\<close>, from index \<open>i\<close> on.\<close>

function embed_loop ::
  "custom_local_embeddings \<Rightarrow> network \<Rightarrow> string list \<Rightarrow> nat \<Rightarrow> vector list \<Rightarrow> payload list
     \<Rightarrow> vector list \<times> payload list" where
  "embed_loop self net texts i all_embeddings sent =
     (if i < length texts
      then embed_loop self net texts (i + batch_size)
             (all_embeddings @ fst (embed_batch self net (slice texts i (i + batch_size)) sent))
             (snd (embed_batch self net (slice texts i (i + batch_size)) sent))
      else (all_embeddings, sent))"
  by pat_completeness auto
termination
  by (relation "measure (\<lambda>(self, net, texts, i, all_embeddings, sent). length texts - i)")
     (auto simp: batch_size_def)

definition embed_documents ::
  "custom_local_embeddings \<Rightarrow> network \<Rightarrow> payload list \<Rightarrow> string list
     \<Rightarrow> vector list \<times> payload list" where
  "embed_documents self net sent texts =
     (if texts = [] then ([], sent) else embed_loop self net texts 0 [] sent)"

text \<open>\<^verbatim>\<open>embed_query\<close>: \<^verbatim>\<open>response["data"][0]["embedding"]\<close>, every failure raised.\<close>

definition embed_query ::
  "custom_local_embeddings \<Rightarrow> network \<Rightarrow> payload list \<Rightarrow> string
     \<Rightarrow> (py_exception + vector) \<times> payload list" where
  "embed_query self net sent txt =
     (case make_embedding_request net sent (create_embedding_request self [txt]) of
        (Inl e, sent') \<Rightarrow> (Inl e, sent')
      | (Inr None, sent') \<Rightarrow> (Inl (KeyError ''data''), sent')
      | (Inr (Some []), sent') \<Rightarrow> (Inl (IndexError ''list index out of range''), sent')
      | (Inr (Some (None # items)), sent') \<Rightarrow> (Inl (KeyError ''embedding''), sent')
      | (Inr (Some (Some v # items)), sent') \<Rightarrow> (Inr v, sent'))"

text \<open>
  Names for stating properties: the number of chunks, the \<open>k\<close>-th chunk, and the outcome
  of the \<^verbatim>\<open>try\<close> block for a batch posted as request number \<open>n\<close>.
\<close>

definition num_chunks :: "string list \<Rightarrow> nat" where
  "num_chunks texts = (length texts + 2) div 3"

definition chunk :: "string list \<Rightarrow> nat \<Rightarrow> string list" where
  "chunk texts k = slice texts (3 * k) (3 * k + 3)"

definition batch_outcome ::
  "custom_local_embeddings \<Rightarrow> network \<Rightarrow> nat \<Rightarrow> string list \<Rightarrow> py_exception + vector list" where
  "batch_outcome self net n batch =
     (case net n (create_embedding_request self batch) of
        Decoded js \<Rightarrow> extract_embeddings js
      | ConnectionFailed e \<Rightarrow> Inl (UnboundLocalError ''cannot access local variable response'')
      | BadStatus code body \<Rightarrow>
          Inl (ValueError (''API request failed: '' @ str_of_nat code @ '' - '' @ body))
      | BadBody code body \<Rightarrow>
          Inl (ValueError (''API request failed: '' @ str_of_nat code @ '' - '' @ body)))"

text \<open>What the loop body appends for a batch posted as request number \<open>n\<close>.\<close>

definition batch_output ::
  "custom_local_embeddings \<Rightarrow> network \<Rightarrow> nat \<Rightarrow> string list \<Rightarrow> vector list" where
  "batch_output self net n batch =
     (case batch_outcome self net n batch of
        Inr vs \<Rightarrow> vs
      | Inl e \<Rightarrow> zero_fallback self batch)"

section \<open>Vector index (app/database/vector\_store.py)\<close>

text \<open>
  The provider held by a \<^verbatim>\<open>VectorStore\<close> is any object with \<^verbatim>\<open>embed_query\<close> and
  \<^verbatim>\<open>embed_documents\<close>: the custom provider above, or the library's managed one. It is a
  pair of operations on the state \<open>'w\<close> of the world outside the program.
\<close>

record 'w embeddings_provider =
  embed_query_op :: "'w \<Rightarrow> string \<Rightarrow> (py_exception + vector) \<times> 'w"
  embed_documents_op :: "'w \<Rightarrow> string list \<Rightarrow> vector list \<times> 'w"

definition custom_provider ::
  "custom_local_embeddings \<Rightarrow> network \<Rightarrow> (payload list) embeddings_provider" where
  "custom_provider self net =
     \<lparr>embed_query_op = embed_query self net, embed_documents_op = embed_documents self net\<rparr>"

text \<open>The contents of the library's in-memory store: each text with its vector.\<close>

type_synonym in_memory_store = "(string \<times> vector) list"

record 'w vector_store =
  embeddings :: "'w embeddings_provider"
  vectorstore :: "in_memory_store option"

text \<open>\<^verbatim>\<open>VectorStore.__init__\<close> ends with \<^verbatim>\<open>self.vectorstore = None\<close>.\<close>

definition new_vector_store :: "'w embeddings_provider \<Rightarrow> 'w vector_store" where
  "new_vector_store provider = \<lparr>embeddings = provider, vectorstore = None\<rparr>"

text \<open>
  \<^verbatim>\<open>InMemoryVectorStore.add_texts\<close> belongs to the library, so \<^verbatim>\<open>initialize\<close> takes it as
  a parameter: from the provider, the texts and the world it gives the exception it
  raised, if any, the contents of the store object afterwards, and the new world.
\<close>

type_synonym 'w add_texts =
  "'w embeddings_provider \<Rightarrow> string list \<Rightarrow> 'w \<Rightarrow> (py_exception option \<times> in_memory_store) \<times> 'w"

text \<open>
  \<^verbatim>\<open>VectorStore.initialize\<close>: the result, the instance afterwards and the world
  afterwards. The length of the probe's vector is only written to the log.
\<close>

definition initialize ::
  "'w add_texts \<Rightarrow> 'w vector_store \<Rightarrow> 'w \<Rightarrow> string list \<Rightarrow> bool \<times> 'w vector_store \<times> 'w" where
  "initialize add_texts self w documents =
     (case embed_query_op (embeddings self) w ''Test embedding'' of
        (Inl e, w') \<Rightarrow> (False, self, w')
      | (Inr test_embedding, w') \<Rightarrow>
          (case add_texts (embeddings self) documents w' of
             ((Some e, store), w'') \<Rightarrow> (False, self\<lparr>vectorstore := Some store\<rparr>, w'')
           | ((None, store), w'') \<Rightarrow> (True, self\<lparr>vectorstore := Some store\<rparr>, w'')))"

text \<open>
  The library's \<^verbatim>\<open>add_texts\<close> as its documentation describes it, for concrete runs: the
  texts are embedded with \<^verbatim>\<open>embed_documents\<close> and stored with their vectors.
\<close>

definition library_add_texts :: "'w add_texts" where
  "library_add_texts provider documents w =
     (case embed_documents_op provider w documents of
        (vs, w') \<Rightarrow> ((None, zip documents vs), w'))"

section \<open>Concrete providers and networks\<close>

definition provider0 :: custom_local_embeddings where
  "provider0 = \<lparr>base_url = ''http://localhost:8000/v1'', api_key = ''key'',
      model = ''ebbge-v2'', dimensions = None, encoding_format = ''float''\<rparr>"

text \<open>A network that answers every request but the second, one vector per text.\<close>

definition net_second_fails :: network where
  "net_second_fails n p =
     (if n = 1 then BadStatus 500 ''boom''
      else Decoded (Some (map (\<lambda>t. Some [1, real (length t)]) (p_input p))))"

text \<open>A network that answers every request with a single vector, whatever was asked.\<close>

definition net_one_item :: network where
  "net_one_item n p = Decoded (Some [Some [1]])"

text \<open>A network that answers the first request with a vector of length 2 and then fails.\<close>

definition net_probe_only :: network where
  "net_probe_only n p =
     (if n = 0 then Decoded (Some [Some [1 / 2, 1 / 4]]) else BadStatus 503 ''unavailable'')"

text \<open>A network that refuses every connection.\<close>

definition net_down :: network where
  "net_down n p = ConnectionFailed ''connection refused''"

definition seven_texts :: "string list" where
  "seven_texts = [''a'', ''bb'', ''c'', ''d'', ''e'', ''f'', ''g'']"

section \<open>Ingestion (app/database/data\_loader.py)\<close>

text \<open>
  A cell of the table that \<^verbatim>\<open>pd.read_csv\<close> returns is missing (\<^verbatim>\<open>NaN\<close>: the field was
  empty in the file) or holds a value. A row gives the cell of every column.
\<close>

datatype cell = NaN | Val string

record dataframe =
  columns :: "string list"
  rows :: "(string \<Rightarrow> cell) list"

text \<open>\<^verbatim>\<open>df[cols].isna().any(axis=1)\<close> for one row.\<close>

definition isna_any :: "string list \<Rightarrow> (string \<Rightarrow> cell) \<Rightarrow> bool" where
  "isna_any cols r = list_ex (\<lambda>c. r c = NaN) cols"

text \<open>\<^verbatim>\<open>df.dropna(subset=cols)\<close>.\<close>

definition dropna :: "string list \<Rightarrow> dataframe \<Rightarrow> dataframe" where
  "dropna cols df = df\<lparr>rows := filter (\<lambda>r. \<not> isna_any cols r) (rows df)\<rparr>"

text \<open>
  \<^verbatim>\<open>load_faq_data\<close>. Reading the file is the library's work: the function is given what
  \<^verbatim>\<open>pd.read_csv\<close> did, a table or the exception it raised. \<open>None\<close> is Python's \<^verbatim>\<open>None\<close>.
\<close>

definition load_faq_data :: "py_exception + dataframe \<Rightarrow> dataframe option" where
  "load_faq_data read_csv =
     (case read_csv of
        Inl e \<Rightarrow> None
      | Inr df \<Rightarrow>
          (let required_columns = [''question'', ''answer''];
               missing_columns = filter (\<lambda>col. col \<notin> set (columns df)) required_columns
           in if missing_columns \<noteq> [] then None
              else (let empty_rows = filter (isna_any required_columns) (rows df)
                    in if empty_rows \<noteq> [] then Some (dropna required_columns df)
                       else Some df)))"

text \<open>How an f-string prints a cell (\<^verbatim>\<open>NaN\<close> prints as \<^verbatim>\<open>nan\<close>).\<close>

fun cell_str :: "cell \<Rightarrow> string" where
  "cell_str NaN = ''nan''"
| "cell_str (Val s) = s"

text \<open>\<^verbatim>\<open>create_documents_from_faqs\<close>: one document per row, in order.\<close>

definition create_documents_from_faqs :: "dataframe \<Rightarrow> string list" where
  "create_documents_from_faqs df =
     map (\<lambda>row. ''Q: '' @ cell_str (row ''question'') @ [CHR 0x0A] @ ''A: ''
                  @ cell_str (row ''answer''))
       (rows df)"

text \<open>A table with three rows, the second without an answer.\<close>

definition faq_row :: "cell \<Rightarrow> cell \<Rightarrow> string \<Rightarrow> cell" where
  "faq_row q a col = (if col = ''question'' then q else if col = ''answer'' then a else NaN)"

definition three_rows :: dataframe where
  "three_rows = \<lparr>columns = [''question'', ''answer''],
     rows = [faq_row (Val ''Q1?'') (Val ''A1.''), faq_row (Val ''Q2?'') NaN,
             faq_row (Val ''Q3?'') (Val ''A3.'')]\<rparr>"

section \<open>The Python runtime: Unicode text and floating point\<close>

text \<open>
  A text whose characters the program inspects is a list of Unicode code points, as a
  Python \<^verbatim>\<open>str\<close> is. \<open>ascii\<close> turns an ASCII literal into such a text.
\<close>

type_synonym pystr = "nat list"

definition ascii :: "string \<Rightarrow> pystr" where
  "ascii s = map of_char s"

text \<open>
  What the interpreter brings and the repository does not: the Unicode character
  database beyond ASCII, and binary floating point. They are parameters of the model.
  \<^item> \<open>u_space\<close>: \<^verbatim>\<open>str.isspace\<close>, which is also the class \<^verbatim>\<open>\s\<close>, on a code point from 128 on;
  \<^item> \<open>u_word\<close>: the class \<^verbatim>\<open>\w\<close> on a code point from 128 on;
  \<^item> \<open>u_decimal\<close>: the value of a decimal digit (the class \<^verbatim>\<open>\d\<close>) from 128 on;
  \<^item> \<open>u_lower\<close>, \<open>u_capitalize\<close>: \<^verbatim>\<open>str.lower\<close> and \<^verbatim>\<open>str.capitalize\<close> on a text that has a
    character outside ASCII;
  \<^item> \<open>fl\<close>: the float nearest to a real number, so that the float operations
    \<^verbatim>\<open>a / b\<close>, \<^verbatim>\<open>a * b\<close> give \<open>fl (a / b)\<close>, \<open>fl (a * b)\<close>, and a literal such as
    \<^verbatim>\<open>0.3\<close> is \<open>fl (3 / 10)\<close>;
  \<^item> \<open>float_sum\<close>: the builtin \<^verbatim>\<open>sum\<close> on floats (added from the left until Python
    3.11, with a compensated sum from 3.12 on).
  On ASCII the character classes are fixed, and written out below.
\<close>

record runtime =
  u_space :: "nat \<Rightarrow> bool"
  u_word :: "nat \<Rightarrow> bool"
  u_decimal :: "nat \<Rightarrow> nat option"
  u_lower :: "pystr \<Rightarrow> pystr"
  u_capitalize :: "pystr \<Rightarrow> pystr"
  fl :: "real \<Rightarrow> real"
  float_sum :: "real list \<Rightarrow> real"

definition is_ascii :: "pystr \<Rightarrow> bool" where
  "is_ascii s = list_all (\<lambda>c. c < 128) s"

text \<open>
  \<^verbatim>\<open>str.isspace\<close> and \<^verbatim>\<open>\s\<close>: on ASCII the space, tab, line feed, vertical tab, form
  feed, carriage return and the four separators 28 to 31.
\<close>

definition is_space :: "runtime \<Rightarrow> nat \<Rightarrow> bool" where
  "is_space R c =
     (if c < 128 then c \<in> set [32, 9, 10, 11, 12, 13, 28, 29, 30, 31] else u_space R c)"

text \<open>\<^verbatim>\<open>\d\<close>: on ASCII the digits 0 to 9; and the value of a digit.\<close>

definition is_digit :: "runtime \<Rightarrow> nat \<Rightarrow> bool" where
  "is_digit R c = (if c < 128 then 48 \<le> c \<and> c \<le> 57 else u_decimal R c \<noteq> None)"

definition digit_val :: "runtime \<Rightarrow> nat \<Rightarrow> nat" where
  "digit_val R c =
     (if c < 128 then c - 48 else (case u_decimal R c of Some d \<Rightarrow> d | None \<Rightarrow> 0))"

text \<open>\<^verbatim>\<open>\w\<close>: on ASCII the letters, the digits and the underscore.\<close>

definition is_word :: "runtime \<Rightarrow> nat \<Rightarrow> bool" where
  "is_word R c =
     (if c < 128
      then (65 \<le> c \<and> c \<le> 90) \<or> (97 \<le> c \<and> c \<le> 122) \<or> (48 \<le> c \<and> c \<le> 57) \<or> c = 95
      else u_word R c)"

definition lower_ascii :: "nat \<Rightarrow> nat" where
  "lower_ascii c = (if 65 \<le> c \<and> c \<le> 90 then c + 32 else c)"

definition upper_ascii :: "nat \<Rightarrow> nat" where
  "upper_ascii c = (if 97 \<le> c \<and> c \<le> 122 then c - 32 else c)"

text \<open>\<^verbatim>\<open>str.lower\<close> and \<^verbatim>\<open>str.capitalize\<close>.\<close>

definition py_lower :: "runtime \<Rightarrow> pystr \<Rightarrow> pystr" where
  "py_lower R s = (if is_ascii s then map lower_ascii s else u_lower R s)"

definition py_capitalize :: "runtime \<Rightarrow> pystr \<Rightarrow> pystr" where
  "py_capitalize R s =
     (if is_ascii s
      then (case s of [] \<Rightarrow> [] | c # cs \<Rightarrow> upper_ascii c # map lower_ascii cs)
      else u_capitalize R s)"

text \<open>\<^verbatim>\<open>str.strip()\<close>.\<close>

definition py_strip :: "runtime \<Rightarrow> pystr \<Rightarrow> pystr" where
  "py_strip R s = rev (dropWhile (is_space R) (rev (dropWhile (is_space R) s)))"

text \<open>
  \<^verbatim>\<open>str.split()\<close> without an argument: the maximal runs of characters that are not
  whitespace. The second argument is the run being read, reversed.
\<close>

fun split_ws :: "runtime \<Rightarrow> pystr \<Rightarrow> pystr \<Rightarrow> pystr list" where
  "split_ws R cur [] = (if cur = [] then [] else [rev cur])"
| "split_ws R cur (c # cs) =
     (if is_space R c then (if cur = [] then split_ws R [] cs else rev cur # split_ws R [] cs)
      else split_ws R (c # cur) cs)"

definition py_words :: "runtime \<Rightarrow> pystr \<Rightarrow> pystr list" where
  "py_words R s = split_ws R [] s"

text \<open>
  \<^verbatim>\<open>s.split(sep)\<close> for a separator that is not empty: the pieces between the occurrences
  of \<open>sep\<close>, found from the left without overlap. (Python raises on an empty separator;
  every separator below is a constant or a line that was checked to be non-empty.) The
  second argument is the piece being read, reversed.
\<close>

function split_on :: "'a list \<Rightarrow> 'a list \<Rightarrow> 'a list \<Rightarrow> 'a list list" where
  "split_on sep cur [] = [rev cur]"
| "split_on sep cur (c # cs) =
     (if sep \<noteq> [] \<and> prefix sep (c # cs)
      then rev cur # split_on sep [] (drop (length sep) (c # cs))
      else split_on sep (c # cur) cs)"
  by pat_completeness auto
termination
  by (relation "measure (\<lambda>(sep, cur, s). length s)") auto

definition py_split :: "'a list \<Rightarrow> 'a list \<Rightarrow> 'a list list" where
  "py_split s sep = split_on sep [] s"

text \<open>\<^verbatim>\<open>sub in s\<close> for strings.\<close>

fun py_in :: "'a list \<Rightarrow> 'a list \<Rightarrow> bool" where
  "py_in sub [] = (sub = [])"
| "py_in sub (c # cs) = (prefix sub (c # cs) \<or> py_in sub cs)"

text \<open>\<^verbatim>\<open>sep.join(xs)\<close>.\<close>

fun py_join :: "'a list \<Rightarrow> 'a list list \<Rightarrow> 'a list" where
  "py_join sep [] = []"
| "py_join sep [x] = x"
| "py_join sep (x # y # ys) = x @ sep @ py_join sep (y # ys)"

text \<open>
  \<^verbatim>\<open>float(s)\<close> for a text of the shape \<^verbatim>\<open>\d+\.?\d*\<close>: the float nearest to the decimal
  number.
\<close>

definition digits_val :: "runtime \<Rightarrow> pystr \<Rightarrow> nat" where
  "digits_val R ds = foldl (\<lambda>a c. 10 * a + digit_val R c) 0 ds"

definition py_float :: "runtime \<Rightarrow> pystr \<Rightarrow> real" where
  "py_float R s =
     (let ip = takeWhile (is_digit R) s;
          fp = (case drop (length ip) s of [] \<Rightarrow> [] | c # r \<Rightarrow> takeWhile (is_digit R) r)
      in fl R (real (digits_val R ip) + real (digits_val R fp) / 10 ^ length fp))"

text \<open>
  \<^verbatim>\<open>round(x, 2)\<close> on a float \<open>x\<close>: the multiple of \<open>1/100\<close> nearest to the exact value of
  \<open>x\<close>, a tie going to the even multiple, and of that the nearest float.
\<close>

definition round_half_even :: "real \<Rightarrow> int" where
  "round_half_even y =
     (let f = \<lfloor>y\<rfloor>; d = y - of_int f
      in if d < 1 / 2 then f else if 1 / 2 < d then f + 1 else if even f then f else f + 1)"

definition py_round2 :: "runtime \<Rightarrow> real \<Rightarrow> real" where
  "py_round2 R x = fl R (of_int (round_half_even (x * 100)) / 100)"

text \<open>\<^verbatim>\<open>str(e)\<close>: for a \<^verbatim>\<open>KeyError\<close> Python prints the key in quotes.\<close>

fun exc_str :: "pystr py_exc \<Rightarrow> pystr" where
  "exc_str (ValueError m) = m"
| "exc_str (UnboundLocalError m) = m"
| "exc_str (KeyError k) = [39] @ k @ [39]"
| "exc_str (IndexError m) = m"
| "exc_str (AttributeError m) = m"
| "exc_str (OtherError m) = m"

text \<open>
  A runtime for concrete runs: IEEE binary64 with the sum added from the left, and no
  character beyond ASCII in any class. \<open>float_exponent x\<close> is the \<open>e\<close> with
  \<open>2^e \<le> |x| < 2^(e+1)\<close>, and \<open>binary64\<close> rounds to 53 significant bits, a tie going to
  the even significand (the exponent range is not limited: no number in these runs is
  near its ends).
\<close>

definition float_exponent :: "real \<Rightarrow> int" where
  "float_exponent x =
     (if 1 \<le> \<bar>x\<bar> then bitlen \<lfloor>\<bar>x\<bar>\<rfloor> - 1 else - bitlen (\<lceil>1 / \<bar>x\<bar>\<rceil> - 1))"

definition binary64 :: "real \<Rightarrow> real" where
  "binary64 x =
     (if x = 0 then 0
      else of_int (round_half_even (x / 2 powi (float_exponent x - 52)))
             * 2 powi (float_exponent x - 52))"

definition cpython_ascii :: runtime where
  "cpython_ascii =
     \<lparr>u_space = (\<lambda>c. False), u_word = (\<lambda>c. False), u_decimal = (\<lambda>c. None),
      u_lower = (\<lambda>s. s), u_capitalize = (\<lambda>s. s),
      fl = binary64, float_sum = foldl (\<lambda>a b. binary64 (a + b)) 0\<rparr>"

section \<open>Response evaluator (app/models/evaluator\_agent.py)\<close>

definition stopwords :: "pystr list" where
  "stopwords =
     map ascii
       [''yang'', ''dan'', ''di'', ''ke'', ''dari'', ''dengan'', ''untuk'', ''pada'', ''adalah'',
        ''ini'', ''itu'',
        ''the'', ''a'', ''an'', ''and'', ''or'', ''but'', ''is'', ''are'', ''was'', ''were'',
        ''be'', ''been'', ''being'',
        ''in'', ''on'', ''at'', ''to'', ''for'', ''with'', ''by'', ''about'', ''against'',
        ''between'', ''into'', ''through'',
        ''this'', ''that'', ''these'', ''those'', ''of'', ''from'']"

text \<open>
  \<^verbatim>\<open>_extract_keywords\<close>: lower case, \<^verbatim>\<open>re.sub(r'[^\w\s]', '', text)\<close>, split on
  whitespace, drop the stopwords and the words of length at most 2.
\<close>

definition extract_keywords :: "runtime \<Rightarrow> pystr \<Rightarrow> pystr list" where
  "extract_keywords R txt =
     (let txt1 = py_lower R txt;
          txt2 = filter (\<lambda>c. is_word R c \<or> is_space R c) txt1;
          keywords = py_words R txt2
      in filter (\<lambda>word. word \<notin> set stopwords \<and> 2 < length word) keywords)"

text \<open>
  The dictionary an evaluation returns: \<^verbatim>\<open>scores\<close>, \<^verbatim>\<open>reasons\<close> and \<^verbatim>\<open>method\<close>, and the
  keys \<^verbatim>\<open>error\<close> and \<^verbatim>\<open>raw_evaluation\<close> that only some paths set. The two inner
  dictionaries are association lists in insertion order.
\<close>

record evaluation =
  scores :: "(pystr \<times> real) list"
  reasons :: "(pystr \<times> pystr list) list"
  eval_method :: pystr
  eval_error :: "pystr option"
  raw_evaluation :: "pystr option"

text \<open>
  \<^verbatim>\<open>_evaluate_heuristic\<close>. A Python \<^verbatim>\<open>set\<close> of words is a list without duplicates; its
  \<^verbatim>\<open>len\<close> is the length of the list. Every division and multiplication is a float
  operation; the literals 1.0, 2.0, 2.5, 3.0, 3.5, 5.0, 15 and 25 are floats as they
  stand, 0.3 and 0.2 are not; the overall score is the builtin \<^verbatim>\<open>sum\<close> of the four
  products, rounded by \<^verbatim>\<open>round(x, 2)\<close>.
\<close>

definition evaluate_heuristic :: "runtime \<Rightarrow> pystr \<Rightarrow> pystr \<Rightarrow> pystr \<Rightarrow> evaluation" where
  "evaluate_heuristic R query response ctx =
     (let query_terms = remdups (extract_keywords R query);
          response_terms = remdups (extract_keywords R response);
          common_terms = filter (\<lambda>t. t \<in> set response_terms) query_terms;
          relevance_score =
            fl R (real (length common_terms) / real (max (length query_terms) 1));
          relevance = min (fl R (relevance_score * 5)) 5;
          relevance_reason =
            (if relevance < 5 / 2
             then ascii ''Response doesn't contain many key terms from the query''
             else ascii ''Response contains key terms from the query'');
          word_count = length (py_words R response);
          completeness = (if word_count < 10 then 1 else if word_count < 30 then 3 else 5);
          completeness_reason =
            (if word_count < 10 then ascii ''Response is too short''
             else if word_count < 30 then ascii ''Response is of medium length''
             else ascii ''Response has good length'');
          sentences = py_split response (ascii ''.'');
          avg_words_per_sentence =
            fl R (real word_count / real (max (length sentences) 1));
          clarity =
            (if 25 < avg_words_per_sentence then 2
             else if 15 < avg_words_per_sentence then 7 / 2 else 5);
          clarity_reason =
            (if 25 < avg_words_per_sentence then ascii ''Sentences are too long''
             else if 15 < avg_words_per_sentence then ascii ''Sentences are of moderate length''
             else ascii ''Sentences are concise'');
          context_terms = remdups (extract_keywords R ctx);
          response_unique_terms = filter (\<lambda>t. t \<notin> set query_terms) response_terms;
          context_overlap = filter (\<lambda>t. t \<in> set context_terms) response_unique_terms;
          accuracy_score =
            fl R (real (length context_overlap)
                    / real (max (length response_unique_terms) 1));
          accuracy = min (fl R (accuracy_score * 5)) 5;
          accuracy_reason =
            (if accuracy < 5 / 2
             then ascii ''Response contains information not in the context''
             else ascii ''Response information is present in the context'');
          overall_score =
            float_sum R
              [fl R (relevance * fl R (3 / 10)), fl R (completeness * fl R (2 / 10)),
               fl R (clarity * fl R (2 / 10)), fl R (accuracy * fl R (3 / 10))]
      in \<lparr>scores = [(ascii ''relevance'', relevance), (ascii ''completeness'', completeness),
                    (ascii ''clarity'', clarity), (ascii ''accuracy'', accuracy),
                    (ascii ''overall'', py_round2 R overall_score)],
          reasons = [(ascii ''relevance'', [relevance_reason]),
                     (ascii ''completeness'', [completeness_reason]),
                     (ascii ''clarity'', [clarity_reason]),
                     (ascii ''accuracy'', [accuracy_reason])],
          eval_method = ascii ''heuristic'', eval_error = None, raw_evaluation = None\<rparr>)"

text \<open>
  The four sub-scores and the weighted sum as the specification words them, over sets
  of keywords, with the arithmetic of the program (floats), to be compared with what
  \<open>evaluate_heuristic\<close> computes.
\<close>

definition keyword_set :: "runtime \<Rightarrow> pystr \<Rightarrow> pystr set" where
  "keyword_set R txt = set (extract_keywords R txt)"

definition spec_relevance :: "runtime \<Rightarrow> pystr \<Rightarrow> pystr \<Rightarrow> real" where
  "spec_relevance R query answer =
     min (fl R (fl R (real (card (keyword_set R query \<inter> keyword_set R answer))
                        / real (max (card (keyword_set R query)) 1)) * 5)) 5"



definition spec_accuracy :: "runtime \<Rightarrow> pystr \<Rightarrow> pystr \<Rightarrow> pystr \<Rightarrow> real" where
  "spec_accuracy R query answer ctx =
     min (fl R (fl R (real (card ((keyword_set R answer - keyword_set R query)
                                    \<inter> keyword_set R ctx))
                        / real (max (card (keyword_set R answer - keyword_set R query)) 1))
                  * 5)) 5"


text \<open>
  \<^verbatim>\<open>re.match(r'(Relevance|Completeness|Clarity|Accuracy|Overall):\s*(\d+\.?\d*)', line)\<close>:
  the two groups when the line starts with a metric name, a colon, optional whitespace
  and at least one digit.
\<close>

definition metric_names :: "pystr list" where
  "metric_names =
     map ascii [''Relevance'', ''Completeness'', ''Clarity'', ''Accuracy'', ''Overall'']"

definition match_score :: "runtime \<Rightarrow> pystr \<Rightarrow> (pystr \<times> pystr) option" where
  "match_score R line =
     (case find (\<lambda>m. prefix (m @ ascii '':'') line) metric_names of
        None \<Rightarrow> None
      | Some m \<Rightarrow>
          (let rest = dropWhile (is_space R) (drop (length m + 1) line);
               ip = takeWhile (is_digit R) rest
           in if ip = [] then None
              else (case drop (length ip) rest of
                      [] \<Rightarrow> Some (m, ip)
                    | c # r \<Rightarrow>
                        if c = 46 then Some (m, ip @ [46] @ takeWhile (is_digit R) r)
                        else Some (m, ip))))"

text \<open>\<^verbatim>\<open>re.match(r'Reason:\s*(.*)', line)\<close>: group 1 when the line starts with \<^verbatim>\<open>Reason:\<close>.\<close>

definition match_reason :: "runtime \<Rightarrow> pystr \<Rightarrow> pystr option" where
  "match_reason R line =
     (if prefix (ascii ''Reason:'') line
      then Some (dropWhile (is_space R) (drop 7 line)) else None)"

text \<open>
  The loop of \<^verbatim>\<open>_parse_evaluation\<close> over the remaining lines. For a reason line the
  condition of the inner loop first evaluates
  \<^verbatim>\<open>eval_text.split(line)[0].split("Reason:")[-2]\<close>; the index \<^verbatim>\<open>[-2]\<close> raises
  \<^verbatim>\<open>IndexError\<close> on a list of one element. The first metric whose capitalised name
  occurs in that piece gets the reason.
\<close>

fun parse_lines ::
  "runtime \<Rightarrow> pystr \<Rightarrow> pystr list \<Rightarrow> (pystr \<times> real) list \<Rightarrow> (pystr \<times> pystr list) list
     \<Rightarrow> pystr py_exc + (pystr \<times> real) list \<times> (pystr \<times> pystr list) list" where
  "parse_lines R eval_text [] sc rs = Inr (sc, rs)"
| "parse_lines R eval_text (raw # rest) sc rs =
     (let line = py_strip R raw
      in if line = [] then parse_lines R eval_text rest sc rs
         else (case match_score R line of
                 Some (metric, score) \<Rightarrow>
                   parse_lines R eval_text rest
                     (AList.update (py_lower R metric) (py_float R score) sc) rs
               | None \<Rightarrow>
                   (case match_reason R line of
                      None \<Rightarrow> parse_lines R eval_text rest sc rs
                    | Some reason \<Rightarrow>
                        (case py_split eval_text line of
                           [] \<Rightarrow> Inl (IndexError (ascii ''list index out of range''))
                         | pre # others \<Rightarrow>
                             (let parts = py_split pre (ascii ''Reason:'')
                              in if length parts < 2
                                 then Inl (IndexError (ascii ''list index out of range''))
                                 else (case find (\<lambda>metric. py_in (py_capitalize R metric)
                                                     (parts ! (length parts - 2)))
                                              (map ascii [''relevance'', ''completeness'',
                                                          ''clarity'', ''accuracy'']) of
                                         None \<Rightarrow> parse_lines R eval_text rest sc rs
                                       | Some metric \<Rightarrow>
                                           parse_lines R eval_text rest sc
                                             (AList.update metric [reason] rs)))))))"

definition parse_evaluation ::
  "runtime \<Rightarrow> pystr
     \<Rightarrow> pystr py_exc + (pystr \<times> real) list \<times> (pystr \<times> pystr list) list" where
  "parse_evaluation R eval_text = parse_lines R eval_text (py_split eval_text [10]) [] []"

text \<open>
  Values that reach the evaluator and the result dictionary of the answer generator:
  \<^verbatim>\<open>None\<close>, a string, a number, a list of documents (their texts), an evaluation.
\<close>

datatype pyval =
    PNone
  | PStr pystr
  | PFloat real
  | PDocuments "pystr list"
  | PEvaluation evaluation

fun type_name :: "pyval \<Rightarrow> string" where
  "type_name PNone = ''NoneType''"
| "type_name (PStr s) = ''str''"
| "type_name (PFloat x) = ''float''"
| "type_name (PDocuments ds) = ''list''"
| "type_name (PEvaluation ev) = ''dict''"

text \<open>
  The heuristic on the value the caller passes as the response: on anything but a string
  \<^verbatim>\<open>_extract_keywords(response)\<close> raises at \<^verbatim>\<open>text.lower()\<close>.
\<close>

definition evaluate_heuristic_value ::
  "runtime \<Rightarrow> pystr \<Rightarrow> pyval \<Rightarrow> pystr \<Rightarrow> pystr py_exc + evaluation" where
  "evaluate_heuristic_value R query response ctx =
     (case response of
        PStr r \<Rightarrow> Inr (evaluate_heuristic R query r ctx)
      | other \<Rightarrow>
          Inl (AttributeError
                 (ascii ([CHR 0x27] @ type_name other @ [CHR 0x27]
                    @ '' object has no attribute '' @ [CHR 0x27] @ ''lower'' @ [CHR 0x27]))))"

text \<open>
  A \<^verbatim>\<open>ResponseEvaluator\<close>: the flag, and the evaluation model. The prompt is a fixed
  template filled with the query, the context and the response, so the model is given
  as a function of the three: its reply (the \<^verbatim>\<open>content\<close>), or the exception raised.
\<close>

record response_evaluator =
  use_model :: bool
  eval_llm :: "pystr \<Rightarrow> pystr \<Rightarrow> pyval \<Rightarrow> pystr py_exc + pystr"

text \<open>
  \<^verbatim>\<open>_evaluate_with_model\<close>: any exception in the \<^verbatim>\<open>try\<close> block falls back to the
  heuristic, whose own exception is then raised from the handler.
\<close>

definition evaluate_with_model ::
  "runtime \<Rightarrow> response_evaluator \<Rightarrow> pystr \<Rightarrow> pyval \<Rightarrow> pystr \<Rightarrow> pystr py_exc + evaluation" where
  "evaluate_with_model R self query response ctx =
     (case (case eval_llm self query ctx response of
              Inl e \<Rightarrow> Inl e
            | Inr eval_text \<Rightarrow>
                (case parse_evaluation R eval_text of
                   Inl e \<Rightarrow> Inl e
                 | Inr (sc, rs) \<Rightarrow>
                     Inr \<lparr>scores = sc, reasons = rs, eval_method = ascii ''model'',
                          eval_error = None, raw_evaluation = Some eval_text\<rparr>)) of
        Inr ev \<Rightarrow> Inr ev
      | Inl e \<Rightarrow>
          (case evaluate_heuristic_value R query response ctx of
             Inl e' \<Rightarrow> Inl e'
           | Inr result \<Rightarrow> Inr (result\<lparr>eval_error := Some (exc_str e)\<rparr>)))"

definition evaluate_response ::
  "runtime \<Rightarrow> response_evaluator \<Rightarrow> pystr \<Rightarrow> pyval \<Rightarrow> pystr \<Rightarrow> pystr py_exc + evaluation" where
  "evaluate_response R self query response ctx =
     (if use_model self then evaluate_with_model R self query response ctx
      else evaluate_heuristic_value R query response ctx)"

section \<open>Answer generator (app/models/qa\_agent.py)\<close>

record document =
  page_content :: pystr
  metadata :: "(pystr \<times> pystr) list"

text \<open>
  A \<^verbatim>\<open>QAChain\<close>: the retriever and the retrieval chain are library objects, given by what
  a call returns or raises; \<open>format_exc\<close> is \<^verbatim>\<open>traceback.format_exc()\<close> while the
  exception is handled.
\<close>

record qa_chain =
  get_relevant_documents :: "pystr \<Rightarrow> pystr py_exc + document list"
  chain_invoke :: "pystr \<Rightarrow> document list \<Rightarrow> pystr py_exc + (pystr \<times> pyval) list"
  evaluator :: response_evaluator
  format_exc :: "pystr py_exc \<Rightarrow> pystr"

text \<open>The calls that leave the program, in order.\<close>

datatype external_call = RetrieverCall pystr | ChainCall pystr | EvalModelCall pystr

text \<open>\<^verbatim>\<open>_debug_retrieve_documents\<close>: an exception of the retriever is logged and \<^verbatim>\<open>[]\<close> returned.\<close>

definition debug_retrieve_documents :: "qa_chain \<Rightarrow> pystr \<Rightarrow> document list" where
  "debug_retrieve_documents self query =
     (case get_relevant_documents self query of
        Inl e \<Rightarrow> []
      | Inr retrieved_docs \<Rightarrow> retrieved_docs)"

text \<open>\<^verbatim>\<open>_format_docs_for_evaluation\<close>.\<close>

definition format_docs_for_evaluation :: "document list \<Rightarrow> pystr" where
  "format_docs_for_evaluation docs =
     (if docs = [] then []
      else py_join [10]
             (map (\<lambda>(i, doc). ascii (''Document '' @ str_of_nat (i + 1) @ '':'') @ [10]
                               @ page_content doc @ [10])
                (zip [0..<length docs] docs)))"

text \<open>\<^verbatim>\<open>d.get(key, default)\<close> on a dictionary kept as an association list.\<close>

definition dict_get :: "(pystr \<times> pyval) list \<Rightarrow> pystr \<Rightarrow> pyval \<Rightarrow> pyval" where
  "dict_get d k dflt = (case map_of d k of Some v \<Rightarrow> v | None \<Rightarrow> dflt)"

text \<open>
  The loop \<^verbatim>\<open>for key, value in response.items()\<close>: a key other than \<^verbatim>\<open>answer\<close> that the
  result does not have yet is added.
\<close>

definition add_passthrough ::
  "(pystr \<times> pyval) list \<Rightarrow> (pystr \<times> pyval) list \<Rightarrow> (pystr \<times> pyval) list" where
  "add_passthrough result response =
     foldl (\<lambda>res (key, v). if key \<noteq> ascii ''answer'' \<and> map_of res key = None
                             then res @ [(key, v)] else res)
       result response"

text \<open>The dictionary returned by the \<^verbatim>\<open>except Exception\<close> handler of \<^verbatim>\<open>generate_response\<close>.\<close>

definition error_result :: "qa_chain \<Rightarrow> pystr py_exc \<Rightarrow> (pystr \<times> pyval) list" where
  "error_result self e =
     [(ascii ''answer'',
         PStr (ascii ''I apologize, but I encountered an error: '' @ exc_str e)),
      (ascii ''error'', PStr (exc_str e)),
      (ascii ''traceback'', PStr (format_exc self e)),
      (ascii ''evaluation'',
         PEvaluation \<lparr>scores = [(ascii ''overall'', 0)],
                       reasons = [(ascii ''error'', [exc_str e])],
                       eval_method = ascii ''error'', eval_error = None,
                       raw_evaluation = None\<rparr>)]"

text \<open>Truth value of a Python value, and \<^verbatim>\<open>isinstance(v, str)\<close>.\<close>

fun truthy :: "pyval \<Rightarrow> bool" where
  "truthy PNone = False"
| "truthy (PStr s) = (s \<noteq> [])"
| "truthy (PFloat x) = (x \<noteq> 0)"
| "truthy (PDocuments ds) = (ds \<noteq> [])"
| "truthy (PEvaluation ev) = True"

fun is_str :: "pyval \<Rightarrow> bool" where
  "is_str (PStr s) = True"
| "is_str v = False"

fun str_value :: "pyval \<Rightarrow> pystr" where
  "str_value (PStr s) = s"
| "str_value v = []"

text \<open>
  \<^verbatim>\<open>generate_response\<close>: the returned dictionary and the external calls made. The guard
  \<^verbatim>\<open>not query or not isinstance(query, str)\<close> is the negation of ``truthy and a string''.
  \<^verbatim>\<open>_construct_debug_prompt\<close> only builds a string for the log and is left out.
\<close>

definition generate_response ::
  "runtime \<Rightarrow> qa_chain \<Rightarrow> pyval \<Rightarrow> (pystr \<times> pyval) list \<times> external_call list" where
  "generate_response R self query_value =
     (if \<not> (truthy query_value \<and> is_str query_value)
      then ([(ascii ''answer'', PStr (ascii ''Invalid query input.''))], [])
      else
        (let query = str_value query_value;
             retrieved_docs = debug_retrieve_documents self query;
             retrieved_context = format_docs_for_evaluation retrieved_docs;
             calls = [RetrieverCall query, ChainCall query]
         in case chain_invoke self query retrieved_docs of
              Inl e \<Rightarrow> (error_result self e, calls)
            | Inr response \<Rightarrow>
                (let answer = dict_get response (ascii ''answer'')
                                (PStr (ascii ''No answer generated''));
                     calls' = calls @ (if use_model (evaluator self)
                                       then [EvalModelCall query] else [])
                 in case evaluate_response R (evaluator self) query answer
                           retrieved_context of
                      Inl e \<Rightarrow> (error_result self e, calls')
                    | Inr evaluation \<Rightarrow>
                        (add_passthrough
                           [(ascii ''answer'', answer),
                            (ascii ''evaluation'', PEvaluation evaluation)]
                           response,
                         calls'))))"

section \<open>Concrete answer generators\<close>

definition heuristic_evaluator :: response_evaluator where
  "heuristic_evaluator =
     \<lparr>use_model = False,
      eval_llm = (\<lambda>query ctx response. Inl (OtherError (ascii ''not configured'')))\<rparr>"

definition trace_text :: "pystr py_exc \<Rightarrow> pystr" where
  "trace_text e = ascii ''Traceback (most recent call last): '' @ exc_str e"

text \<open>The retriever raises; the chain answers.\<close>

definition qa_retriever_down :: qa_chain where
  "qa_retriever_down =
     \<lparr>get_relevant_documents = (\<lambda>query. Inl (OtherError (ascii ''retriever down''))),
      chain_invoke = (\<lambda>query docs.
         Inr [(ascii ''input'', PStr query),
              (ascii ''context'', PDocuments (map page_content docs)),
              (ascii ''answer'', PStr (ascii ''Perusahaan teknologi''))]),
      evaluator = heuristic_evaluator, format_exc = trace_text\<rparr>"

text \<open>The retriever finds one document; the chain raises.\<close>

definition qa_chain_down :: qa_chain where
  "qa_chain_down =
     \<lparr>get_relevant_documents = (\<lambda>query.
         Inr [\<lparr>page_content = ascii ''Q: Apa itu Nawatech?'', metadata = []\<rparr>]),
      chain_invoke = (\<lambda>query docs. Inl (OtherError (ascii ''model unavailable''))),
      evaluator = heuristic_evaluator, format_exc = trace_text\<rparr>"

text \<open>The chain returns a result whose answer is \<^verbatim>\<open>None\<close>.\<close>

definition qa_answer_none :: qa_chain where
  "qa_answer_none =
     \<lparr>get_relevant_documents = (\<lambda>query. Inr []),
      chain_invoke = (\<lambda>query docs. Inr [(ascii ''input'', PStr query), (ascii ''answer'', PNone)]),
      evaluator = heuristic_evaluator, format_exc = trace_text\<rparr>"

text \<open>The chain answers; the evaluation model is switched on and raises.\<close>

definition qa_eval_model_down :: qa_chain where
  "qa_eval_model_down =
     \<lparr>get_relevant_documents = (\<lambda>query. Inr []),
      chain_invoke = (\<lambda>query docs.
         Inr [(ascii ''answer'', PStr (ascii ''Perusahaan teknologi''))]),
      evaluator = \<lparr>use_model = True,
                   eval_llm = (\<lambda>query ctx response. Inl (OtherError (ascii ''rate limited'')))\<rparr>,
      format_exc = trace_text\<rparr>"

text \<open>The message of the \<^verbatim>\<open>AttributeError\<close> raised by \<^verbatim>\<open>None.lower()\<close>.\<close>

definition none_has_no_lower :: pystr where
  "none_has_no_lower =
     ascii ([CHR 0x27] @ ''NoneType'' @ [CHR 0x27] @ '' object has no attribute ''
              @ [CHR 0x27] @ ''lower'' @ [CHR 0x27])"




section \<open>Properties of the chat history\<close>

lemma add_message_eq:
  "add_message h m = (if length h \<ge> 20 then drop (length h - 19) (h @ [m]) else h @ [m])"
proof -
  have "nat (int (length h) + 1 - 20) = length h - 19" by linarith
  then show ?thesis
    by (auto simp: add_message_def slice_from_def MAX_HISTORY_LENGTH_def Let_def)
qed

lemma add_messages_snoc:
  "add_messages h (ms @ [m]) = add_message (add_messages h ms) m"
  by (simp add: add_messages_def)

lemma add_messages_last:
  "ms \<noteq> [] \<Longrightarrow> length (h @ ms) > 20 \<Longrightarrow>
   add_messages h ms = drop (length (h @ ms) - 20) (h @ ms)"
proof (induction ms rule: rev_induct)
  case Nil
  then show ?case by simp
next
  case (snoc m ms)
  show ?case
  proof (cases "ms = []")
    case True
    then have "add_messages h (ms @ [m]) = add_message h m"
      by (simp add: add_messages_def)
    moreover have "length h \<ge> 20" using snoc.prems True by simp
    ultimately show ?thesis using True
      by (simp add: add_message_eq)
  next
    case False
    note ne = False
    show ?thesis
    proof (cases "length (h @ ms) > 20")
      case True
      then have ih: "add_messages h ms = drop (length (h @ ms) - 20) (h @ ms)"
        using snoc.IH ne by simp
      have len: "length (add_messages h ms) = 20" using True by (simp add: ih)
      have "add_message (add_messages h ms) m = drop 1 (add_messages h ms @ [m])"
        by (simp add: add_message_eq len)
      also have "\<dots> = drop 1 (drop (length (h @ ms) - 20) (h @ ms @ [m]))"
        using True by (simp add: ih)
      also have "\<dots> = drop (length (h @ ms @ [m]) - 20) (h @ ms @ [m])"
      proof -
        have "1 + (length (h @ ms) - 20) = length (h @ ms @ [m]) - 20"
          using True by simp
        then show ?thesis by (simp only: drop_drop)
      qed
      finally show ?thesis by (simp add: add_messages_snoc)
    next
      case False
      then have eq20: "length (h @ ms) = 20" using snoc.prems by simp
      have short: "\<And>k. k \<le> length ms \<Longrightarrow> length h + k \<le> 20 \<Longrightarrow>
          add_messages h (take k ms) = h @ take k ms"
      proof -
        fix k show "k \<le> length ms \<Longrightarrow> length h + k \<le> 20 \<Longrightarrow>
          add_messages h (take k ms) = h @ take k ms"
        proof (induction k)
          case 0
          then show ?case by (simp add: add_messages_def)
        next
          case (Suc k)
          then have t: "take (Suc k) ms = take k ms @ [ms ! k]"
            by (simp add: take_Suc_conv_app_nth)
          have "add_messages h (take k ms) = h @ take k ms" using Suc by simp
          moreover have "length (h @ take k ms) < 20" using Suc.prems by simp
          ultimately show ?case
            by (simp add: t add_messages_snoc add_message_eq)
        qed
      qed
      have "add_messages h ms = h @ ms"
        using short [of "length ms"] eq20 by simp
      then show ?thesis using eq20
        by (simp add: add_messages_snoc add_message_eq)
    qed
  qed
qed

text \<open>
  C9. After more than \<^verbatim>\<open>MAX_HISTORY_LENGTH\<close> (20) messages have been appended by
  \<^verbatim>\<open>add_message\<close>, whatever the history was before, the stored history has exactly
  20 entries, and they are the 20 most recently appended messages in the order in
  which they were appended: the oldest entries were dropped first.
\<close>

theorem add_message_fifo_eviction:
  assumes "int (length ms) > MAX_HISTORY_LENGTH"
  shows "int (length (add_messages h ms)) = MAX_HISTORY_LENGTH
       \<and> add_messages h ms = drop (length ms - nat MAX_HISTORY_LENGTH) ms"
proof -
  have len: "length ms > 20" using assms by (simp add: MAX_HISTORY_LENGTH_def)
  then have ne: "ms \<noteq> []" by auto
  have "add_messages h ms = drop (length (h @ ms) - 20) (h @ ms)"
    using add_messages_last [OF ne] len by simp
  also have "\<dots> = drop (length ms - 20) ms" using len by simp
  finally have eq: "add_messages h ms = drop (length ms - 20) ms" .
  then show ?thesis using len by (simp add: MAX_HISTORY_LENGTH_def)
qed

theorem add_message_fifo_eviction_witness:
  "int (length (map numbered_message [0..<23])) > MAX_HISTORY_LENGTH
   \<and> length (add_messages [] (map numbered_message [0..<23])) = 20
   \<and> add_messages [] (map numbered_message [0..<23]) = map numbered_message [3..<23]"
proof -
  have h: "int (length (map numbered_message [0..<23])) > MAX_HISTORY_LENGTH"
    by (simp add: MAX_HISTORY_LENGTH_def)
  have d: "drop 3 (map numbered_message [0..<23]) = map numbered_message [3..<23]"
    by (simp add: drop_map)
  show ?thesis
    using add_message_fifo_eviction [OF h, of "[]"] h d
    by (simp add: MAX_HISTORY_LENGTH_def)
qed

section \<open>Properties of the embedding provider\<close>

lemma embed_batch_eq:
  "embed_batch self net batch sent =
     (batch_output self net (length sent) batch, sent @ [create_embedding_request self batch])"
  by (simp add: embed_batch_def try_embed_batch_def make_embedding_request_def
      batch_output_def batch_outcome_def split: http_outcome.splits sum.splits)

lemma chunk_index: "3 * k < length texts \<longleftrightarrow> k < num_chunks texts"
  by (auto simp: num_chunks_def)

lemma embed_loop_chunks:
  "length sent = b + k \<Longrightarrow>
   embed_loop self net texts (3 * k) acc sent =
     (acc @ concat (map (\<lambda>j. batch_output self net (b + j) (chunk texts j))
                     [k..<num_chunks texts]),
      sent @ map (\<lambda>j. create_embedding_request self (chunk texts j)) [k..<num_chunks texts])"
proof (induction "num_chunks texts - k" arbitrary: k acc sent)
  case 0
  then have "\<not> 3 * k < length texts" by (simp add: chunk_index)
  then show ?case using 0 by (simp add: embed_loop.simps [of _ _ _ "3 * k"])
next
  case (Suc d)
  then have lt: "k < num_chunks texts" by simp
  then have i: "3 * k < length texts" by (simp add: chunk_index)
  have step: "embed_loop self net texts (3 * k) acc sent =
      embed_loop self net texts (3 * Suc k)
        (acc @ batch_output self net (b + k) (chunk texts k))
        (sent @ [create_embedding_request self (chunk texts k)])"
    using i Suc.prems
    by (subst embed_loop.simps) (simp add: embed_batch_eq batch_size_def chunk_def add.commute)
  have d: "d = num_chunks texts - Suc k" using Suc.hyps(2) by simp
  have len: "length (sent @ [create_embedding_request self (chunk texts k)]) = b + Suc k"
    using Suc.prems by simp
  show ?case
    unfolding step Suc.hyps(1) [OF d len]
    using lt by (simp add: upt_conv_Cons)
qed

lemma embed_documents_chunks:
  "embed_documents self net sent texts =
     (concat (map (\<lambda>j. batch_output self net (length sent + j) (chunk texts j))
                [0..<num_chunks texts]),
      sent @ map (\<lambda>j. create_embedding_request self (chunk texts j)) [0..<num_chunks texts])"
proof (cases "texts = []")
  case True
  then show ?thesis by (simp add: embed_documents_def num_chunks_def)
next
  case False
  have "embed_loop self net texts (3 * 0) [] sent =
     ([] @ concat (map (\<lambda>j. batch_output self net (length sent + j) (chunk texts j))
                [0..<num_chunks texts]),
      sent @ map (\<lambda>j. create_embedding_request self (chunk texts j)) [0..<num_chunks texts])"
    by (rule embed_loop_chunks) simp
  then show ?thesis using False by (simp add: embed_documents_def)
qed

lemma length_chunk: "length (chunk texts j) = min 3 (length texts - 3 * j)"
  by (simp add: chunk_def slice_def)

lemma chunk_nth: "i < length texts \<Longrightarrow> chunk texts (i div 3) ! (i mod 3) = texts ! i"
  by (simp add: chunk_def slice_def)

lemma concat_chunks:
  "m \<le> num_chunks texts \<Longrightarrow> (\<And>j. j < m \<Longrightarrow> length (f j) = length (chunk texts j)) \<Longrightarrow>
     concat (map f [0..<m]) =
       map (\<lambda>i. f (i div 3) ! (i mod 3)) [0..<min (3 * m) (length texts)]"
proof (induction m)
  case 0
  then show ?case by simp
next
  case (Suc m)
  then have m: "m < num_chunks texts" by simp
  then have lt: "3 * m < length texts" by (simp add: chunk_index)
  define M where "M = min (3 * Suc m) (length texts)"
  have lf: "length (f m) = M - 3 * m"
    using Suc.prems(2) [of m] lt by (auto simp: length_chunk M_def)
  have fm: "f m = map (\<lambda>i. f (i div 3) ! (i mod 3)) [3 * m..<M]"
  proof (rule nth_equalityI)
    show "length (f m) = length (map (\<lambda>i. f (i div 3) ! (i mod 3)) [3 * m..<M])"
      by (simp add: lf)
  next
    fix t assume t: "t < length (f m)"
    then have t3: "t < 3" using lf by (simp add: M_def)
    then have "(3 * m + t) div 3 = m" "(3 * m + t) mod 3 = t" by simp_all
    then show "f m ! t = map (\<lambda>i. f (i div 3) ! (i mod 3)) [3 * m..<M] ! t"
      using t lf by simp
  qed
  have le: "3 * m \<le> M" using lt by (simp add: M_def)
  have "concat (map f [0..<Suc m]) = concat (map f [0..<m]) @ f m" by simp
  also have "concat (map f [0..<m]) = map (\<lambda>i. f (i div 3) ! (i mod 3)) [0..<3 * m]"
    using Suc lt by (simp add: min_def)
  also have "\<dots> @ f m = map (\<lambda>i. f (i div 3) ! (i mod 3)) ([0..<3 * m] @ [3 * m..<M])"
    by (subst fm) simp
  also have "[0..<3 * m] @ [3 * m..<M] = [0..<M]"
    using le by (metis le_add_diff_inverse upt_add_eq_append zero_le)
  finally show ?case by (simp only: M_def)
qed

lemma concat_chunks_all:
  assumes "\<And>j. j < num_chunks texts \<Longrightarrow> length (f j) = length (chunk texts j)"
  shows "concat (map f [0..<num_chunks texts]) =
       map (\<lambda>i. f (i div 3) ! (i mod 3)) [0..<length texts]"
proof -
  have "min (3 * num_chunks texts) (length texts) = length texts"
    by (simp add: num_chunks_def)
  then show ?thesis using concat_chunks [of "num_chunks texts" texts f] assms by simp
qed

lemma batch_output_length:
  assumes "\<And>vs. batch_outcome self net n batch = Inr vs \<Longrightarrow> length vs = length batch"
  shows "length (batch_output self net n batch) = length batch"
  using assms by (simp add: batch_output_def zero_fallback_def split: sum.splits)

lemma those_map_Some: "those (map (\<lambda>t. Some (g t)) xs) = Some (map g xs)"
  by (induction xs) simp_all

lemma net_second_fails_conforms:
  "batch_outcome provider0 net_second_fails n batch = Inr vs \<Longrightarrow> length vs = length batch"
  by (auto simp: batch_outcome_def net_second_fails_def create_embedding_request_def
      extract_embeddings_def those_map_Some split: if_splits)

text \<open>
  C10. \<^verbatim>\<open>embed_documents([])\<close> returns the empty list at once: the log of posted
  requests is unchanged, so no HTTP request is made.
\<close>

theorem embed_documents_empty:
  "embed_documents self net sent [] = ([], sent)"
  by (simp add: embed_documents_def)

text \<open>
  C2, as stated: for every list of \<open>n\<close> texts \<^verbatim>\<open>embed_documents\<close> returns exactly \<open>n\<close>
  vectors. It fails when a request succeeds with a body that does not hold one item per
  text: the items are appended as they come, and nothing compares their number with the
  batch. Here three texts give one vector.
\<close>

theorem embed_documents_length_counterexample:
  "length (fst (embed_documents provider0 net_one_item [] [''a'', ''b'', ''c'']))
     \<noteq> length [''a'', ''b'', ''c'']"
  by (simp add: embed_documents_chunks num_chunks_def batch_output_def batch_outcome_def
      net_one_item_def extract_embeddings_def)

text \<open>
  C2, amended. Provided every chunk request that succeeds returns one embedding per text
  of its chunk (the provider's contract), \<^verbatim>\<open>embed_documents\<close> on \<open>n\<close> texts returns
  exactly \<open>n\<close> vectors, whether or not chunk requests fail; it posts one request per
  chunk of three consecutive texts, in order (the last chunk may be shorter); and output
  slot \<open>i\<close> is the entry for text \<open>i\<close>: entry \<open>i mod 3\<close> of what the request for chunk
  \<open>i div 3\<close> contributed, where text \<open>i\<close> is entry \<open>i mod 3\<close> of that chunk.
\<close>

theorem embed_documents_length_and_order:
  assumes conform: "\<And>j vs. j < num_chunks texts \<Longrightarrow>
      batch_outcome self net (length sent + j) (chunk texts j) = Inr vs \<Longrightarrow>
      length vs = length (chunk texts j)"
  shows "length (fst (embed_documents self net sent texts)) = length texts
       \<and> snd (embed_documents self net sent texts) =
           sent @ map (\<lambda>j. create_embedding_request self (take 3 (drop (3 * j) texts)))
                    [0..<(length texts + 2) div 3]
       \<and> (\<forall>i<length texts.
            fst (embed_documents self net sent texts) ! i =
              batch_output self net (length sent + i div 3) (chunk texts (i div 3)) ! (i mod 3)
            \<and> chunk texts (i div 3) ! (i mod 3) = texts ! i)"
proof -
  let ?f = "\<lambda>j. batch_output self net (length sent + j) (chunk texts j)"
  have len: "\<And>j. j < num_chunks texts \<Longrightarrow> length (?f j) = length (chunk texts j)"
    using conform by (intro batch_output_length) auto
  have out: "fst (embed_documents self net sent texts) =
      map (\<lambda>i. ?f (i div 3) ! (i mod 3)) [0..<length texts]"
    using concat_chunks_all [of texts ?f] len by (simp add: embed_documents_chunks)
  have reqs: "snd (embed_documents self net sent texts) =
      sent @ map (\<lambda>j. create_embedding_request self (take 3 (drop (3 * j) texts)))
               [0..<(length texts + 2) div 3]"
    by (simp add: embed_documents_chunks num_chunks_def chunk_def slice_def)
  have l: "length (fst (embed_documents self net sent texts)) = length texts"
    by (simp add: out)
  have slots: "\<forall>i<length texts.
      fst (embed_documents self net sent texts) ! i = ?f (i div 3) ! (i mod 3)
      \<and> chunk texts (i div 3) ! (i mod 3) = texts ! i"
    by (simp add: out chunk_nth)
  from l reqs slots show ?thesis by blast
qed

theorem embed_documents_length_and_order_witness:
  "length (fst (embed_documents provider0 net_second_fails [] seven_texts)) = 7
   \<and> length (snd (embed_documents provider0 net_second_fails [] seven_texts)) = 3
   \<and> fst (embed_documents provider0 net_second_fails [] seven_texts) ! 6 = [1, 1]
   \<and> chunk seven_texts 2 ! 0 = ''g''"
proof -
  let ?E = "embed_documents provider0 net_second_fails [] seven_texts"
  have c: "\<And>j vs. j < num_chunks seven_texts \<Longrightarrow>
      batch_outcome provider0 net_second_fails (length ([] :: payload list) + j)
        (chunk seven_texts j) = Inr vs \<Longrightarrow>
      length vs = length (chunk seven_texts j)"
    using net_second_fails_conforms by blast
  have b: "batch_output provider0 net_second_fails 2 (chunk seven_texts 2) = [[1, 1]]"
    by (simp add: batch_output_def batch_outcome_def net_second_fails_def chunk_def slice_def
        seven_texts_def create_embedding_request_def extract_embeddings_def)
  have t: "chunk seven_texts 2 ! 0 = ''g''"
    by (simp add: chunk_def slice_def seven_texts_def)
  have n: "length seven_texts = 7" by (simp add: seven_texts_def)
  note main = embed_documents_length_and_order
         [where texts = seven_texts and self = provider0 and net = net_second_fails
            and sent = "[]", OF c]
  from main have l: "length (fst ?E) = length seven_texts"
    and r: "snd ?E = [] @ map (\<lambda>j. create_embedding_request provider0
               (take 3 (drop (3 * j) seven_texts))) [0..<(length seven_texts + 2) div 3]"
    and sl: "\<forall>i<length seven_texts. fst ?E ! i =
        batch_output provider0 net_second_fails (length ([] :: payload list) + i div 3)
          (chunk seven_texts (i div 3)) ! (i mod 3)
        \<and> chunk seven_texts (i div 3) ! (i mod 3) = seven_texts ! i"
    by blast+
  have six: "(6::nat) div 3 = 2" "(6::nat) mod 3 = 0" "length ([] :: payload list) + 2 = 2"
    by simp_all
  have "6 < length seven_texts" by (simp add: n)
  with sl have "fst ?E ! 6 =
        batch_output provider0 net_second_fails (length ([] :: payload list) + 6 div 3)
          (chunk seven_texts (6 div 3)) ! (6 mod 3)"
    by blast
  then have s6: "fst ?E ! 6 = [[1, 1]] ! 0"
    by (simp only: six b)
  have lr: "length (snd ?E) = 3" by (simp add: r n)
  from l n lr s6 t show ?thesis by simp
qed

lemma str_of_nat_503: "str_of_nat 503 = ''503''"
  by code_simp

lemma str_of_nat_500: "str_of_nat 500 = ''500''"
  by code_simp

lemma probe_only_probe:
  "embed_query provider0 net_probe_only [] ''Test embedding'' =
     (Inr [1 / 2, 1 / 4], [create_embedding_request provider0 [''Test embedding'']])"
  by (simp add: embed_query_def make_embedding_request_def net_probe_only_def)

lemma probe_only_fails:
  "batch_outcome provider0 net_probe_only (Suc 0) [''a''] =
     Inl (ValueError ''API request failed: 503 - unavailable'')"
  by (simp add: batch_outcome_def net_probe_only_def str_of_nat_503
      del: str_of_nat.simps)

lemma zero_fallback_provider0: "zero_fallback provider0 [''a''] = [replicate 384 0]"
  by (simp add: zero_fallback_def int_or_def provider0_def)

lemma probe_only_documents:
  "embed_documents provider0 net_probe_only
     [create_embedding_request provider0 [''Test embedding'']] [''a''] =
   ([replicate 384 0],
    [create_embedding_request provider0 [''Test embedding''],
     create_embedding_request provider0 [''a'']])"
  by (simp add: embed_documents_chunks num_chunks_def batch_output_def chunk_def slice_def
      probe_only_fails zero_fallback_provider0)

lemma probe_only_initialize:
  "initialize library_add_texts
     (new_vector_store (custom_provider provider0 net_probe_only)) [] [''a''] =
   (True,
    \<lparr>embeddings = custom_provider provider0 net_probe_only,
     vectorstore = Some [(''a'', replicate 384 0)]\<rparr>,
    [create_embedding_request provider0 [''Test embedding''],
     create_embedding_request provider0 [''a'']])"
  by (simp add: initialize_def new_vector_store_def custom_provider_def probe_only_probe
      library_add_texts_def probe_only_documents)

text \<open>
  C1, as stated: the zero vectors of a failed chunk have the length of the vector that
  the probe of \<^verbatim>\<open>VectorStore.initialize\<close> received. It fails: the probe's length is
  only logged, and the fallback is \<^verbatim>\<open>self.dimensions or 384\<close>. Here the probe receives a
  vector of length 2, the request for the only chunk fails, and the index stores a zero
  vector of length 384 for the document.
\<close>

theorem zero_vector_dimension_counterexample:
  "fst (embed_query provider0 net_probe_only [] ''Test embedding'') = Inr [1 / 2, 1 / 4]
   \<and> batch_outcome provider0 net_probe_only 1 [''a''] =
       Inl (ValueError ''API request failed: 503 - unavailable'')
   \<and> vectorstore (fst (snd (initialize library_add_texts
        (new_vector_store (custom_provider provider0 net_probe_only)) [] [''a''])))
       = Some [(''a'', replicate 384 0)]
   \<and> length (replicate 384 (0::real)) \<noteq> length [1 / 2, 1 / 4 :: real]"
  by (simp add: probe_only_probe probe_only_fails probe_only_initialize)

text \<open>
  C1, amended. If the request for a chunk fails, and every earlier chunk whose request
  succeeded received one embedding per text, then every output slot of the failed chunk
  is a vector of zeros whose length is the provider's configured \<^verbatim>\<open>dimensions\<close> when
  that is set and not 0, and 384 otherwise. The vector received by the probe of
  \<^verbatim>\<open>VectorStore.initialize\<close> plays no part.
\<close>

theorem failed_chunk_zero_vectors:
  assumes earlier: "\<And>j vs. j < i div 3 \<Longrightarrow>
      batch_outcome self net (length sent + j) (chunk texts j) = Inr vs \<Longrightarrow>
      length vs = length (chunk texts j)"
    and i: "i < length texts"
    and failed: "batch_outcome self net (length sent + i div 3) (chunk texts (i div 3)) = Inl e"
  shows "fst (embed_documents self net sent texts) ! i =
           replicate (nat (int_or (dimensions self) 384)) 0"
proof -
  let ?f = "\<lambda>j. batch_output self net (length sent + j) (chunk texts j)"
  define k where "k = i div 3"
  have k3: "3 * k \<le> i" and r3: "i - 3 * k = i mod 3" by (simp_all add: k_def) presburger+
  have kK: "k < num_chunks texts" using i k3 by (simp add: chunk_index [symmetric])
  have split: "[0..<num_chunks texts] = [0..<k] @ k # [Suc k..<num_chunks texts]"
    using kK by (metis le_add_diff_inverse less_imp_le upt_add_eq_append upt_conv_Cons zero_le)
  have lenA: "\<And>j. j < k \<Longrightarrow> length (?f j) = length (chunk texts j)"
    using earlier by (intro batch_output_length) (auto simp: k_def)
  have A: "concat (map ?f [0..<k]) = map (\<lambda>i. ?f (i div 3) ! (i mod 3)) [0..<min (3 * k) (length texts)]"
    using concat_chunks [of k texts ?f] kK lenA by simp
  have lA: "length (concat (map ?f [0..<k])) = 3 * k"
    unfolding A using i k3 by simp
  have fk: "?f k = zero_fallback self (chunk texts k)"
    using failed by (simp add: batch_output_def k_def)
  have lk: "i mod 3 < length (?f k)"
    using i k3 r3 by (simp add: fk zero_fallback_def length_chunk)
  have "fst (embed_documents self net sent texts) =
      concat (map ?f [0..<k]) @ ?f k @ concat (map ?f [Suc k..<num_chunks texts])"
    by (simp add: embed_documents_chunks split)
  then have "fst (embed_documents self net sent texts) ! i = ?f k ! (i mod 3)"
    using lA k3 r3 lk by (simp add: nth_append)
  also have "\<dots> = replicate (nat (int_or (dimensions self) 384)) 0"
    using lk by (simp add: fk zero_fallback_def)
  finally show ?thesis .
qed


theorem failed_chunk_zero_vectors_witness:
  "4 < length seven_texts
   \<and> batch_outcome provider0 net_second_fails 1 (chunk seven_texts 1) =
       Inl (ValueError ''API request failed: 500 - boom'')
   \<and> fst (embed_documents provider0 net_second_fails [] seven_texts) ! 4 = replicate 384 0"
proof -
  have i: "4 < length seven_texts" by (simp add: seven_texts_def)
  have d: "(4::nat) div 3 = 1" by simp
  have f: "batch_outcome provider0 net_second_fails 1 (chunk seven_texts 1) =
       Inl (ValueError ''API request failed: 500 - boom'')"
    by (simp add: batch_outcome_def net_second_fails_def str_of_nat_500
        del: str_of_nat.simps)
  have f': "batch_outcome provider0 net_second_fails (length ([] :: payload list) + 4 div 3)
       (chunk seven_texts (4 div 3)) = Inl (ValueError ''API request failed: 500 - boom'')"
    using f by (simp only: d list.size add_0)
  have e: "\<And>j vs. j < 4 div 3 \<Longrightarrow>
      batch_outcome provider0 net_second_fails (length ([] :: payload list) + j)
        (chunk seven_texts j) = Inr vs \<Longrightarrow>
      length vs = length (chunk seven_texts j)"
    using net_second_fails_conforms by blast
  have "fst (embed_documents provider0 net_second_fails [] seven_texts) ! 4 =
      replicate (nat (int_or (dimensions provider0) 384)) 0"
    using failed_chunk_zero_vectors
      [where i = 4 and self = provider0 and net = net_second_fails and sent = "[]"
         and texts = seven_texts, OF e i f'] .
  then have "fst (embed_documents provider0 net_second_fails [] seven_texts) ! 4 =
      replicate 384 0"
    by (simp add: provider0_def int_or_def)
  with i f show ?thesis by blast
qed

section \<open>Properties of the vector index\<close>

text \<open>
  C5. If the probe \<^verbatim>\<open>embed_query("Test embedding")\<close> raises, \<^verbatim>\<open>initialize\<close> returns
  \<^verbatim>\<open>False\<close> and the instance is as it was before the call: no store object is created
  and \<^verbatim>\<open>add_texts\<close> is never called, so a store that was \<^verbatim>\<open>None\<close> is still \<^verbatim>\<open>None\<close> and no
  document is indexed.
\<close>

theorem initialize_probe_failure:
  assumes "embed_query_op (embeddings self) w ''Test embedding'' = (Inl e, w')"
  shows "initialize add_texts self w documents = (False, self, w')"
  using assms by (simp add: initialize_def)

theorem initialize_probe_failure_witness:
  "embed_query_op (embeddings (new_vector_store (custom_provider provider0 net_down))) []
       ''Test embedding'' =
     (Inl (UnboundLocalError ''cannot access local variable response''),
      [create_embedding_request provider0 [''Test embedding'']])
   \<and> initialize library_add_texts (new_vector_store (custom_provider provider0 net_down)) []
       [''Q: a'', ''Q: b''] =
     (False, new_vector_store (custom_provider provider0 net_down),
      [create_embedding_request provider0 [''Test embedding'']])
   \<and> vectorstore (new_vector_store (custom_provider provider0 net_down)) = None"
proof -
  have p: "embed_query_op (embeddings (new_vector_store (custom_provider provider0 net_down)))
       [] ''Test embedding'' =
     (Inl (UnboundLocalError ''cannot access local variable response''),
      [create_embedding_request provider0 [''Test embedding'']])"
    by (simp add: new_vector_store_def custom_provider_def embed_query_def
        make_embedding_request_def net_down_def)
  from initialize_probe_failure [OF p] p show ?thesis
    by (simp add: new_vector_store_def)
qed

section \<open>Properties of the ingestion\<close>

lemma isna_any_required:
  "isna_any [''question'', ''answer''] r \<longleftrightarrow> \<not> (r ''question'' \<noteq> NaN \<and> r ''answer'' \<noteq> NaN)"
  by (simp add: isna_any_def)

text \<open>
  C8. When \<^verbatim>\<open>load_faq_data\<close> returns a table, it is the table that was read with
  exactly the rows removed in which the question or the answer is missing, in the
  original order: every row of the returned table, which is what the document builder
  receives, has both fields present, and every row with a missing field is gone.
\<close>

theorem load_faq_data_drops_missing:
  assumes "load_faq_data r = Some df'"
  shows "\<exists>df. r = Inr df
           \<and> rows df' = filter (\<lambda>row. row ''question'' \<noteq> NaN \<and> row ''answer'' \<noteq> NaN) (rows df)
           \<and> columns df' = columns df
           \<and> (\<forall>row\<in>set (rows df'). row ''question'' \<noteq> NaN \<and> row ''answer'' \<noteq> NaN)"
proof (cases r)
  case (Inl e)
  then show ?thesis using assms by (simp add: load_faq_data_def)
next
  case (Inr df)
  let ?ok = "\<lambda>row. row ''question'' \<noteq> NaN \<and> row ''answer'' \<noteq> NaN"
  have bad: "filter (isna_any [''question'', ''answer'']) (rows df) = filter (\<lambda>row. \<not> ?ok row) (rows df)"
    by (rule filter_cong) (simp_all add: isna_any_required)
  have good: "rows (dropna [''question'', ''answer''] df) = filter ?ok (rows df)"
    unfolding dropna_def by (simp add: isna_any_required cong: filter_cong)
  have cols: "columns (dropna [''question'', ''answer''] df) = columns df"
    by (simp add: dropna_def)
  have same: "filter (\<lambda>row. \<not> ?ok row) (rows df) = [] \<Longrightarrow> filter ?ok (rows df) = rows df"
    by (simp add: filter_empty_conv filter_id_conv)
  from assms Inr have "df' = dropna [''question'', ''answer''] df \<or>
       (df' = df \<and> filter (\<lambda>row. \<not> ?ok row) (rows df) = [])"
    by (auto simp: load_faq_data_def Let_def bad split: if_splits)
  then have "rows df' = filter ?ok (rows df) \<and> columns df' = columns df"
    using good cols same by auto
  then show ?thesis using Inr by auto
qed

theorem load_faq_data_drops_missing_witness:
  "load_faq_data (Inr three_rows) =
     Some \<lparr>columns = [''question'', ''answer''],
           rows = [faq_row (Val ''Q1?'') (Val ''A1.''), faq_row (Val ''Q3?'') (Val ''A3.'')]\<rparr>
   \<and> (rows three_rows ! 1) ''answer'' = NaN
   \<and> faq_row (Val ''Q1?'') (Val ''A1.'') ''answer'' \<noteq> NaN
   \<and> faq_row (Val ''Q3?'') (Val ''A3.'') ''question'' \<noteq> NaN"
proof -
  have l: "load_faq_data (Inr three_rows) =
     Some \<lparr>columns = [''question'', ''answer''],
           rows = [faq_row (Val ''Q1?'') (Val ''A1.''), faq_row (Val ''Q3?'') (Val ''A3.'')]\<rparr>"
    by (simp add: load_faq_data_def three_rows_def isna_any_def dropna_def faq_row_def)
  from load_faq_data_drops_missing [OF l]
  have "\<forall>row\<in>set [faq_row (Val ''Q1?'') (Val ''A1.''), faq_row (Val ''Q3?'') (Val ''A3.'')].
          row ''question'' \<noteq> NaN \<and> row ''answer'' \<noteq> NaN"
    by auto
  then show ?thesis using l by (simp add: three_rows_def faq_row_def)
qed

section \<open>Properties of the runtime\<close>

lemma ascii_eq_iff [simp]: "ascii a = ascii b \<longleftrightarrow> a = b"
  unfolding ascii_def by (simp add: inj_map_eq_map inj_of_char)

lemma ascii_append [simp]: "ascii (a @ b) = ascii a @ ascii b"
  by (simp add: ascii_def)

lemma ascii_Nil [simp]: "ascii [] = []"
  by (simp add: ascii_def)

lemma ascii_eq_Nil [simp]: "ascii a = [] \<longleftrightarrow> a = []"
  by (simp add: ascii_def)

lemma round_half_even_near:
  "\<bar>real_of_int (round_half_even y) - y\<bar> \<le> 1 / 2"
  unfolding round_half_even_def Let_def by (auto split: if_splits)




text \<open>
  \<open>float_exponent\<close> is the binary exponent: \<open>2^e \<le> |x| < 2^(e+1)\<close> for \<open>x \<noteq> 0\<close>.
\<close>

lemma float_exponent_bounds:
  assumes "x \<noteq> 0"
  shows "2 powi (float_exponent x) \<le> \<bar>x\<bar> \<and> \<bar>x\<bar> < 2 powi (float_exponent x + 1)"
proof (cases "1 \<le> \<bar>x\<bar>")
  case True
  let ?m = "\<lfloor>\<bar>x\<bar>\<rfloor>"
  have m: "0 < ?m" using True by simp
  have b1: "1 \<le> bitlen ?m" using m by (simp add: bitlen_alt_def)
  from bitlen_bounds [OF m]
  have lo: "2 ^ nat (bitlen ?m - 1) \<le> ?m" and hi: "?m < 2 ^ nat (bitlen ?m)" by simp_all
  have e: "float_exponent x = bitlen ?m - 1" using True by (simp add: float_exponent_def)
  have "real_of_int (2 ^ nat (bitlen ?m - 1)) \<le> real_of_int ?m" using lo by linarith
  also have "\<dots> \<le> \<bar>x\<bar>" by simp
  finally have L: "(2::real) powi (bitlen ?m - 1) \<le> \<bar>x\<bar>"
    using b1 by (simp add: power_int_def)
  have "?m + 1 \<le> 2 ^ nat (bitlen ?m)" using hi by simp
  then have "real_of_int (?m + 1) \<le> real_of_int (2 ^ nat (bitlen ?m))" by linarith
  then have B: "real_of_int ?m + 1 \<le> 2 ^ nat (bitlen ?m)" by simp
  have A: "\<bar>x\<bar> < real_of_int ?m + 1" by linarith
  from A B have "\<bar>x\<bar> < 2 ^ nat (bitlen ?m)" by linarith
  then have H: "\<bar>x\<bar> < (2::real) powi (bitlen ?m - 1 + 1)"
    using b1 by (simp add: power_int_def)
  from L H e show ?thesis by simp
next
  case False
  then have a: "0 < \<bar>x\<bar>" "\<bar>x\<bar> < 1" using assms by simp_all
  let ?y = "1 / \<bar>x\<bar>"
  let ?n = "\<lceil>?y\<rceil>"
  have y1: "1 < ?y" using a by simp
  then have n2: "2 \<le> ?n" by (simp add: le_ceiling_iff)
  then have p: "0 < ?n - 1" by simp
  let ?k = "bitlen (?n - 1)"
  have k1: "1 \<le> ?k" using p by (simp add: bitlen_alt_def)
  from bitlen_bounds [OF p]
  have lo: "2 ^ nat (?k - 1) \<le> ?n - 1" and hi: "?n - 1 < 2 ^ nat ?k" by simp_all
  have e: "float_exponent x = - ?k" using False by (simp add: float_exponent_def)
  have "?n \<le> 2 ^ nat ?k" using hi by simp
  then have "?y \<le> real_of_int (2 ^ nat ?k)" by (simp only: ceiling_le_iff)
  then have "?y \<le> 2 ^ nat ?k" by simp
  then have "1 \<le> 2 ^ nat ?k * \<bar>x\<bar>" using a by (simp add: field_simps)
  then have "inverse (2 ^ nat ?k) \<le> \<bar>x\<bar>"
    by (simp add: field_simps)
  then have L: "(2::real) powi (- ?k) \<le> \<bar>x\<bar>"
    using k1 by (simp add: power_int_def power_one_over inverse_eq_divide)
  have "2 ^ nat (?k - 1) < ?n" using lo by simp
  then have "real_of_int (2 ^ nat (?k - 1)) < ?y" by (simp only: less_ceiling_iff)
  then have "2 ^ nat (?k - 1) < ?y" by simp
  then have "2 ^ nat (?k - 1) * \<bar>x\<bar> < 1" using a by (simp add: field_simps)
  then have "\<bar>x\<bar> < inverse (2 ^ nat (?k - 1))" by (simp add: field_simps)
  then have H: "\<bar>x\<bar> < (2::real) powi (- ?k + 1)"
  proof (cases "?k = 1")
    case True
    then show ?thesis using a by simp
  next
    case False
    then have "nat (- (- ?k + 1)) = nat (?k - 1)" "\<not> 0 \<le> - ?k + 1" using k1 by simp_all
    then show ?thesis using \<open>\<bar>x\<bar> < inverse (2 ^ nat (?k - 1))\<close>
      by (simp add: power_int_def power_one_over inverse_eq_divide)
  qed
  from L H e show ?thesis by simp
qed

text \<open>\<open>binary64\<close> is a rounding: the relative error is at most \<open>2^-53\<close>.\<close>

lemma binary64_near: "\<bar>binary64 x - x\<bar> \<le> \<bar>x\<bar> / 2 ^ 53"
proof (cases "x = 0")
  case True
  then show ?thesis by (simp add: binary64_def)
next
  case False
  let ?e = "float_exponent x"
  let ?u = "(2::real) powi (?e - 52)"
  have u: "0 < ?u" by (simp add: zero_less_power_int)
  have "\<bar>real_of_int (round_half_even (x / ?u)) - x / ?u\<bar> \<le> 1 / 2"
    by (rule round_half_even_near)
  then have "\<bar>real_of_int (round_half_even (x / ?u)) - x / ?u\<bar> * ?u \<le> 1 / 2 * ?u"
    using u by (simp add: mult_right_mono)
  moreover have "\<bar>real_of_int (round_half_even (x / ?u)) - x / ?u\<bar> * ?u
      = \<bar>real_of_int (round_half_even (x / ?u)) * ?u - x\<bar>"
  proof -
    have "\<bar>real_of_int (round_half_even (x / ?u)) - x / ?u\<bar> * ?u
        = \<bar>(real_of_int (round_half_even (x / ?u)) - x / ?u) * ?u\<bar>"
      using u by (simp add: abs_mult)
    also have "(real_of_int (round_half_even (x / ?u)) - x / ?u) * ?u
        = real_of_int (round_half_even (x / ?u)) * ?u - x"
      using u by (simp add: field_simps)
    finally show ?thesis .
  qed
  ultimately have d: "\<bar>binary64 x - x\<bar> \<le> ?u / 2"
    using False by (simp add: binary64_def)
  have "?u = 2 powi ?e / 2 ^ 52"
    by (simp add: power_int_diff)
  moreover have "2 powi ?e \<le> \<bar>x\<bar>" using float_exponent_bounds [OF False] by simp
  ultimately have "?u / 2 \<le> \<bar>x\<bar> / 2 ^ 53" by (simp add: field_simps)
  with d show ?thesis by linarith
qed

section \<open>Properties of the answer generator\<close>

text \<open>
  C6. \<^verbatim>\<open>generate_response("")\<close> and \<^verbatim>\<open>generate_response(None)\<close> return exactly
  \<^verbatim>\<open>{"answer": "Invalid query input."}\<close>, and no call to the retriever, the chain or the
  evaluation model is made.
\<close>

theorem generate_response_invalid_query:
  "generate_response R self (PStr (ascii '''')) =
     ([(ascii ''answer'', PStr (ascii ''Invalid query input.''))], [])
   \<and> generate_response R self PNone =
     ([(ascii ''answer'', PStr (ascii ''Invalid query input.''))], [])"
  by (simp add: generate_response_def)

lemma passthrough_keeps:
  "map_of res k = Some v \<Longrightarrow> map_of (add_passthrough res response) k = Some v"
proof (induction response arbitrary: res)
  case Nil
  then show ?case by (simp add: add_passthrough_def)
next
  case (Cons kv response)
  obtain key v' where kv: "kv = (key, v')" by (cases kv)
  let ?res' = "if key \<noteq> ascii ''answer'' \<and> map_of res key = None
               then res @ [(key, v')] else res"
  have "map_of ?res' k = Some v" using Cons.prems by (auto simp: map_add_def)
  then have "map_of (add_passthrough ?res' response) k = Some v" by (rule Cons.IH)
  then show ?case by (simp add: add_passthrough_def kv)
qed

lemma generate_response_has_answer:
  "\<exists>v. map_of (fst (generate_response R self query_value)) (ascii ''answer'') = Some v"
  by (auto simp: generate_response_def Let_def error_result_def passthrough_keeps
      split: sum.splits)

text \<open>
  C3, as stated: an exception at any stage after validation, retrieval included, gives
  the error result. It fails for the retrieval stage: \<^verbatim>\<open>_debug_retrieve_documents\<close> has
  its own handler, which returns no documents, and the run goes on. Here the retriever
  raises and the caller gets the chain's answer with no \<^verbatim>\<open>error\<close> entry.
\<close>

theorem retrieval_exception_counterexample:
  "get_relevant_documents qa_retriever_down (ascii ''Apa itu Nawatech?'') =
     Inl (OtherError (ascii ''retriever down''))
   \<and> map_of (fst (generate_response cpython_ascii qa_retriever_down
                    (PStr (ascii ''Apa itu Nawatech?'')))) (ascii ''answer'')
       = Some (PStr (ascii ''Perusahaan teknologi''))
   \<and> map_of (fst (generate_response cpython_ascii qa_retriever_down
                    (PStr (ascii ''Apa itu Nawatech?'')))) (ascii ''error'')
       = None"
  by (simp add: generate_response_def qa_retriever_down_def debug_retrieve_documents_def
      format_docs_for_evaluation_def dict_get_def evaluate_response_def
      heuristic_evaluator_def evaluate_heuristic_value_def add_passthrough_def Let_def)

text \<open>
  C3, amended. For every query that passes validation (a non-empty string):
  an exception raised by the chain invocation, or raised by the evaluator on the
  extracted answer, is caught and \<^verbatim>\<open>generate_response\<close> returns the dictionary with
  \<^verbatim>\<open>answer\<close> ``I apologize, but I encountered an error: <message>'', \<^verbatim>\<open>error\<close> the
  message, \<^verbatim>\<open>traceback\<close> the formatted traceback, and \<^verbatim>\<open>evaluation\<close> with scores
  \<^verbatim>\<open>{overall: 0.0}\<close>, reasons \<^verbatim>\<open>{error: [<message>]}\<close> and method \<^verbatim>\<open>error\<close>;
  an exception of the retriever is caught earlier and stands for an empty retrieval;
  an exception of the evaluation model is caught by the evaluator, which returns the
  heuristic evaluation with the message attached. In every case, for any argument,
  a dictionary with an \<^verbatim>\<open>answer\<close> is returned.
\<close>

theorem generate_response_error_result:
  assumes "q \<noteq> []"
  shows "(\<forall>e. chain_invoke self q (debug_retrieve_documents self q) = Inl e \<longrightarrow>
            fst (generate_response R self (PStr q)) =
              [(ascii ''answer'',
                  PStr (ascii ''I apologize, but I encountered an error: '' @ exc_str e)),
               (ascii ''error'', PStr (exc_str e)),
               (ascii ''traceback'', PStr (format_exc self e)),
               (ascii ''evaluation'',
                  PEvaluation \<lparr>scores = [(ascii ''overall'', 0)],
                                reasons = [(ascii ''error'', [exc_str e])],
                                eval_method = ascii ''error'', eval_error = None,
                                raw_evaluation = None\<rparr>)])
       \<and> (\<forall>response e.
            chain_invoke self q (debug_retrieve_documents self q) = Inr response \<longrightarrow>
            evaluate_response R (evaluator self) q
               (dict_get response (ascii ''answer'') (PStr (ascii ''No answer generated'')))
               (format_docs_for_evaluation (debug_retrieve_documents self q)) = Inl e \<longrightarrow>
            fst (generate_response R self (PStr q)) =
              [(ascii ''answer'',
                  PStr (ascii ''I apologize, but I encountered an error: '' @ exc_str e)),
               (ascii ''error'', PStr (exc_str e)),
               (ascii ''traceback'', PStr (format_exc self e)),
               (ascii ''evaluation'',
                  PEvaluation \<lparr>scores = [(ascii ''overall'', 0)],
                                reasons = [(ascii ''error'', [exc_str e])],
                                eval_method = ascii ''error'', eval_error = None,
                                raw_evaluation = None\<rparr>)])
       \<and> (\<forall>e. get_relevant_documents self q = Inl e \<longrightarrow>
            debug_retrieve_documents self q = [])
       \<and> (\<forall>e a c. use_model (evaluator self) \<longrightarrow>
            eval_llm (evaluator self) q c (PStr a) = Inl e \<longrightarrow>
            evaluate_response R (evaluator self) q (PStr a) c =
              Inr ((evaluate_heuristic R q a c)\<lparr>eval_error := Some (exc_str e)\<rparr>))
       \<and> (\<forall>query_value.
            \<exists>v. map_of (fst (generate_response R self query_value)) (ascii ''answer'')
                  = Some v)"
proof (intro conjI allI impI)
  fix e assume "chain_invoke self q (debug_retrieve_documents self q) = Inl e"
  then show "fst (generate_response R self (PStr q)) =
              [(ascii ''answer'',
                  PStr (ascii ''I apologize, but I encountered an error: '' @ exc_str e)),
               (ascii ''error'', PStr (exc_str e)),
               (ascii ''traceback'', PStr (format_exc self e)),
               (ascii ''evaluation'',
                  PEvaluation \<lparr>scores = [(ascii ''overall'', 0)],
                                reasons = [(ascii ''error'', [exc_str e])],
                                eval_method = ascii ''error'', eval_error = None,
                                raw_evaluation = None\<rparr>)]"
    using assms by (simp add: generate_response_def error_result_def)
next
  fix response e
  assume "chain_invoke self q (debug_retrieve_documents self q) = Inr response"
    and "evaluate_response R (evaluator self) q
               (dict_get response (ascii ''answer'') (PStr (ascii ''No answer generated'')))
               (format_docs_for_evaluation (debug_retrieve_documents self q)) = Inl e"
  then show "fst (generate_response R self (PStr q)) =
              [(ascii ''answer'',
                  PStr (ascii ''I apologize, but I encountered an error: '' @ exc_str e)),
               (ascii ''error'', PStr (exc_str e)),
               (ascii ''traceback'', PStr (format_exc self e)),
               (ascii ''evaluation'',
                  PEvaluation \<lparr>scores = [(ascii ''overall'', 0)],
                                reasons = [(ascii ''error'', [exc_str e])],
                                eval_method = ascii ''error'', eval_error = None,
                                raw_evaluation = None\<rparr>)]"
    using assms by (simp add: generate_response_def error_result_def)
next
  fix e assume "get_relevant_documents self q = Inl e"
  then show "debug_retrieve_documents self q = []"
    by (simp add: debug_retrieve_documents_def)
next
  fix e a c
  assume "use_model (evaluator self)" and "eval_llm (evaluator self) q c (PStr a) = Inl e"
  then show "evaluate_response R (evaluator self) q (PStr a) c =
              Inr ((evaluate_heuristic R q a c)\<lparr>eval_error := Some (exc_str e)\<rparr>)"
    by (simp add: evaluate_response_def evaluate_with_model_def evaluate_heuristic_value_def)
next
  fix query_value
  show "\<exists>v. map_of (fst (generate_response R self query_value)) (ascii ''answer'') = Some v"
    by (rule generate_response_has_answer)
qed

theorem generate_response_error_result_witness:
  "ascii ''Apa itu Nawatech?'' \<noteq> []
   \<and> chain_invoke qa_chain_down (ascii ''Apa itu Nawatech?'')
        (debug_retrieve_documents qa_chain_down (ascii ''Apa itu Nawatech?''))
       = Inl (OtherError (ascii ''model unavailable''))
   \<and> fst (generate_response cpython_ascii qa_chain_down (PStr (ascii ''Apa itu Nawatech?''))) =
       [(ascii ''answer'',
           PStr (ascii ''I apologize, but I encountered an error: model unavailable'')),
        (ascii ''error'', PStr (ascii ''model unavailable'')),
        (ascii ''traceback'',
           PStr (ascii ''Traceback (most recent call last): model unavailable'')),
        (ascii ''evaluation'',
           PEvaluation \<lparr>scores = [(ascii ''overall'', 0)],
                         reasons = [(ascii ''error'', [ascii ''model unavailable''])],
                         eval_method = ascii ''error'', eval_error = None,
                         raw_evaluation = None\<rparr>)]
   \<and> chain_invoke qa_answer_none (ascii ''Apa itu Nawatech?'')
        (debug_retrieve_documents qa_answer_none (ascii ''Apa itu Nawatech?''))
       = Inr [(ascii ''input'', PStr (ascii ''Apa itu Nawatech?'')), (ascii ''answer'', PNone)]
   \<and> evaluate_response cpython_ascii (evaluator qa_answer_none) (ascii ''Apa itu Nawatech?'')
        PNone []
       = Inl (AttributeError none_has_no_lower)
   \<and> fst (generate_response cpython_ascii qa_answer_none (PStr (ascii ''Apa itu Nawatech?''))) =
       [(ascii ''answer'',
           PStr (ascii ''I apologize, but I encountered an error: '' @ none_has_no_lower)),
        (ascii ''error'', PStr none_has_no_lower),
        (ascii ''traceback'',
           PStr (ascii ''Traceback (most recent call last): '' @ none_has_no_lower)),
        (ascii ''evaluation'',
           PEvaluation \<lparr>scores = [(ascii ''overall'', 0)],
                         reasons = [(ascii ''error'', [none_has_no_lower])],
                         eval_method = ascii ''error'', eval_error = None,
                         raw_evaluation = None\<rparr>)]
   \<and> get_relevant_documents qa_retriever_down (ascii ''Apa itu Nawatech?'')
       = Inl (OtherError (ascii ''retriever down''))
   \<and> debug_retrieve_documents qa_retriever_down (ascii ''Apa itu Nawatech?'') = []
   \<and> use_model (evaluator qa_eval_model_down)
   \<and> evaluate_response cpython_ascii (evaluator qa_eval_model_down)
        (ascii ''Apa itu Nawatech?'') (PStr (ascii ''Perusahaan teknologi'')) [] =
       Inr ((evaluate_heuristic cpython_ascii (ascii ''Apa itu Nawatech?'')
               (ascii ''Perusahaan teknologi'') [])
              \<lparr>eval_error := Some (ascii ''rate limited'')\<rparr>)"
proof -
  let ?q = "ascii ''Apa itu Nawatech?''"
  let ?R = cpython_ascii
  have q: "?q \<noteq> []" by simp
  text \<open>The chain raises.\<close>
  have c: "chain_invoke qa_chain_down ?q (debug_retrieve_documents qa_chain_down ?q)
       = Inl (OtherError (ascii ''model unavailable''))"
    by (simp add: qa_chain_down_def)
  have f: "format_exc qa_chain_down (OtherError (ascii ''model unavailable'')) =
      ascii ''Traceback (most recent call last): model unavailable''"
    by (simp add: qa_chain_down_def trace_text_def flip: ascii_append)
  have m: "ascii ''I apologize, but I encountered an error: '' @ ascii ''model unavailable''
      = ascii ''I apologize, but I encountered an error: model unavailable''"
    by (simp flip: ascii_append)
  from generate_response_error_result [OF q, of qa_chain_down ?R] c
  have "fst (generate_response ?R qa_chain_down (PStr ?q)) =
       [(ascii ''answer'', PStr (ascii ''I apologize, but I encountered an error: ''
                            @ exc_str (OtherError (ascii ''model unavailable'')))),
        (ascii ''error'', PStr (exc_str (OtherError (ascii ''model unavailable'')))),
        (ascii ''traceback'',
           PStr (format_exc qa_chain_down (OtherError (ascii ''model unavailable'')))),
        (ascii ''evaluation'',
           PEvaluation \<lparr>scores = [(ascii ''overall'', 0)],
                         reasons = [(ascii ''error'',
                                       [exc_str (OtherError (ascii ''model unavailable''))])],
                         eval_method = ascii ''error'', eval_error = None,
                         raw_evaluation = None\<rparr>)]"
    by blast
  then have r1: "fst (generate_response ?R qa_chain_down (PStr ?q)) =
       [(ascii ''answer'',
           PStr (ascii ''I apologize, but I encountered an error: model unavailable'')),
        (ascii ''error'', PStr (ascii ''model unavailable'')),
        (ascii ''traceback'',
           PStr (ascii ''Traceback (most recent call last): model unavailable'')),
        (ascii ''evaluation'',
           PEvaluation \<lparr>scores = [(ascii ''overall'', 0)],
                         reasons = [(ascii ''error'', [ascii ''model unavailable''])],
                         eval_method = ascii ''error'', eval_error = None,
                         raw_evaluation = None\<rparr>)]"
    by (simp only: f m exc_str.simps)
  text \<open>The evaluator raises on an answer that is not a string.\<close>
  have d0: "debug_retrieve_documents qa_answer_none ?q = []"
    by (simp add: debug_retrieve_documents_def qa_answer_none_def)
  have c2: "chain_invoke qa_answer_none ?q (debug_retrieve_documents qa_answer_none ?q)
       = Inr [(ascii ''input'', PStr ?q), (ascii ''answer'', PNone)]"
    by (simp add: qa_answer_none_def)
  have a2: "dict_get [(ascii ''input'', PStr ?q), (ascii ''answer'', PNone)] (ascii ''answer'')
       (PStr (ascii ''No answer generated'')) = PNone"
    by (simp add: dict_get_def)
  have e2: "evaluate_response ?R (evaluator qa_answer_none) ?q PNone []
       = Inl (AttributeError none_has_no_lower)"
    by (simp add: qa_answer_none_def heuristic_evaluator_def evaluate_response_def
        evaluate_heuristic_value_def none_has_no_lower_def)
  have e2': "evaluate_response ?R (evaluator qa_answer_none) ?q
       (dict_get [(ascii ''input'', PStr ?q), (ascii ''answer'', PNone)] (ascii ''answer'')
          (PStr (ascii ''No answer generated'')))
       (format_docs_for_evaluation (debug_retrieve_documents qa_answer_none ?q))
       = Inl (AttributeError none_has_no_lower)"
  proof -
    have "format_docs_for_evaluation [] = []"
      by (simp add: format_docs_for_evaluation_def)
    then show ?thesis using e2 by (simp only: a2 d0)
  qed
  have f2: "format_exc qa_answer_none (AttributeError none_has_no_lower) =
      ascii ''Traceback (most recent call last): '' @ none_has_no_lower"
    by (simp add: qa_answer_none_def trace_text_def)
  from generate_response_error_result [OF q, of qa_answer_none ?R] c2 e2'
  have "fst (generate_response ?R qa_answer_none (PStr ?q)) =
       [(ascii ''answer'', PStr (ascii ''I apologize, but I encountered an error: ''
                            @ exc_str (AttributeError none_has_no_lower))),
        (ascii ''error'', PStr (exc_str (AttributeError none_has_no_lower))),
        (ascii ''traceback'',
           PStr (format_exc qa_answer_none (AttributeError none_has_no_lower))),
        (ascii ''evaluation'',
           PEvaluation \<lparr>scores = [(ascii ''overall'', 0)],
                         reasons = [(ascii ''error'',
                                       [exc_str (AttributeError none_has_no_lower)])],
                         eval_method = ascii ''error'', eval_error = None,
                         raw_evaluation = None\<rparr>)]"
    by blast
  then have r2: "fst (generate_response ?R qa_answer_none (PStr ?q)) =
       [(ascii ''answer'',
           PStr (ascii ''I apologize, but I encountered an error: '' @ none_has_no_lower)),
        (ascii ''error'', PStr none_has_no_lower),
        (ascii ''traceback'',
           PStr (ascii ''Traceback (most recent call last): '' @ none_has_no_lower)),
        (ascii ''evaluation'',
           PEvaluation \<lparr>scores = [(ascii ''overall'', 0)],
                         reasons = [(ascii ''error'', [none_has_no_lower])],
                         eval_method = ascii ''error'', eval_error = None,
                         raw_evaluation = None\<rparr>)]"
    by (simp only: f2 exc_str.simps)
  text \<open>The retriever raises.\<close>
  have g3: "get_relevant_documents qa_retriever_down ?q
      = Inl (OtherError (ascii ''retriever down''))"
    by (simp add: qa_retriever_down_def)
  from generate_response_error_result [OF q, of qa_retriever_down ?R] g3
  have r3: "debug_retrieve_documents qa_retriever_down ?q = []" by blast
  text \<open>The evaluation model raises.\<close>
  have u4: "use_model (evaluator qa_eval_model_down)"
    by (simp add: qa_eval_model_down_def)
  have l4: "eval_llm (evaluator qa_eval_model_down) ?q []
       (PStr (ascii ''Perusahaan teknologi'')) = Inl (OtherError (ascii ''rate limited''))"
    by (simp add: qa_eval_model_down_def)
  from generate_response_error_result [OF q, of qa_eval_model_down ?R] u4 l4
  have "evaluate_response ?R (evaluator qa_eval_model_down) ?q
        (PStr (ascii ''Perusahaan teknologi'')) [] =
       Inr ((evaluate_heuristic ?R ?q (ascii ''Perusahaan teknologi'') [])
              \<lparr>eval_error := Some (exc_str (OtherError (ascii ''rate limited'')))\<rparr>)"
    by blast
  then have r4: "evaluate_response ?R (evaluator qa_eval_model_down) ?q
        (PStr (ascii ''Perusahaan teknologi'')) [] =
       Inr ((evaluate_heuristic ?R ?q (ascii ''Perusahaan teknologi'') [])
              \<lparr>eval_error := Some (ascii ''rate limited'')\<rparr>)"
    by (simp only: exc_str.simps)
  from q c r1 c2 e2 r2 g3 r3 u4 r4 show ?thesis by blast
qed

section \<open>Properties of the evaluation parser\<close>

text \<open>
  C7. The parser is not total. On the reply \<^verbatim>\<open>Relevance: 4\<close>, newline, \<^verbatim>\<open>Reason: good\<close>,
  the first two lines of the format that the evaluation prompt asks for, the text
  before the reason line holds no \<^verbatim>\<open>Reason:\<close>, its split has one piece, and the index
  \<^verbatim>\<open>[-2]\<close> raises \<^verbatim>\<open>IndexError\<close>, whatever the runtime.
\<close>

theorem parse_evaluation_reason_line_raises:
  "parse_evaluation R (ascii (''Relevance: 4'' @ [CHR 0x0A] @ ''Reason: good'')) =
     Inl (IndexError (ascii ''list index out of range''))"
  by code_simp

section \<open>Properties of the heuristic evaluation\<close>
















text \<open>
  With exact arithmetic in place of floats the sub-scores are the formulas of the
  specification as they are written.
\<close>

lemma spec_relevance_exact:
  "fl R = (\<lambda>x. x) \<Longrightarrow>
   spec_relevance R query answer =
     min (5 * real (card (keyword_set R query \<inter> keyword_set R answer))
            / real (max (card (keyword_set R query)) 1)) 5"
  by (simp add: spec_relevance_def mult.commute)

lemma spec_accuracy_exact:
  "fl R = (\<lambda>x. x) \<Longrightarrow>
   spec_accuracy R query answer ctx =
     min (5 * real (card ((keyword_set R answer - keyword_set R query) \<inter> keyword_set R ctx))
            / real (max (card (keyword_set R answer - keyword_set R query)) 1)) 5"
  by (simp add: spec_accuracy_def mult.commute)

text \<open>
  On a runtime whose rounding has a relative error of at most \<open>\<epsilon>\<close>, a sub-score computed
  in floats is within \<open>15 \<epsilon>\<close> of the formula of the specification in exact arithmetic.
\<close>

lemma scaled_ratio_close:
  assumes err: "\<And>x. \<bar>fl R x - x\<bar> \<le> eps * \<bar>x\<bar>" and eps: "0 \<le> eps" "eps \<le> 1"
    and cq: "c \<le> q" "0 < q"
  shows "\<bar>min (fl R (fl R (real c / real q) * 5)) 5 - min (5 * real c / real q) 5\<bar> \<le> 15 * eps"
proof -
  let ?x = "real c / real q"
  let ?a = "fl R ?x"
  have x: "0 \<le> ?x" "?x \<le> 1" using cq by simp_all
  have a: "\<bar>?a - ?x\<bar> \<le> eps" 
  proof -
    have "\<bar>?a - ?x\<bar> \<le> eps * \<bar>?x\<bar>" by (rule err)
    also have "\<dots> \<le> eps * 1" using x eps by (intro mult_left_mono) simp_all
    finally show ?thesis by simp
  qed
  then have a2: "\<bar>?a\<bar> \<le> 2" using x eps by linarith
  have "\<bar>fl R (?a * 5) - ?a * 5\<bar> \<le> eps * \<bar>?a * 5\<bar>" by (rule err)
  also have "\<dots> \<le> eps * 10" using a2 eps by (intro mult_left_mono) simp_all
  finally have b: "\<bar>fl R (?a * 5) - ?a * 5\<bar> \<le> 10 * eps" by simp
  have "\<bar>fl R (?a * 5) - 5 * ?x\<bar> \<le> 15 * eps" using a b by linarith
  then show ?thesis by (simp add: min_def abs_le_iff split: if_splits)
qed

lemma spec_relevance_close:
  assumes "\<And>x. \<bar>fl R x - x\<bar> \<le> eps * \<bar>x\<bar>" and "0 \<le> eps" "eps \<le> 1"
  shows "\<bar>spec_relevance R query answer
          - min (5 * real (card (keyword_set R query \<inter> keyword_set R answer))
                   / real (max (card (keyword_set R query)) 1)) 5\<bar> \<le> 15 * eps"
proof -
  have "card (keyword_set R query \<inter> keyword_set R answer) \<le> card (keyword_set R query)"
    by (simp add: card_mono keyword_set_def)
  then have "card (keyword_set R query \<inter> keyword_set R answer)
      \<le> max (card (keyword_set R query)) 1" by simp
  then show ?thesis
    unfolding spec_relevance_def
    by (intro scaled_ratio_close assms) simp_all
qed

lemma spec_accuracy_close:
  assumes "\<And>x. \<bar>fl R x - x\<bar> \<le> eps * \<bar>x\<bar>" and "0 \<le> eps" "eps \<le> 1"
  shows "\<bar>spec_accuracy R query answer ctx
          - min (5 * real (card ((keyword_set R answer - keyword_set R query)
                                   \<inter> keyword_set R ctx))
                   / real (max (card (keyword_set R answer - keyword_set R query)) 1)) 5\<bar>
         \<le> 15 * eps"
proof -
  have "card ((keyword_set R answer - keyword_set R query) \<inter> keyword_set R ctx)
      \<le> card (keyword_set R answer - keyword_set R query)"
    by (simp add: card_mono keyword_set_def)
  then have "card ((keyword_set R answer - keyword_set R query) \<inter> keyword_set R ctx)
      \<le> max (card (keyword_set R answer - keyword_set R query)) 1" by simp
  then show ?thesis
    unfolding spec_accuracy_def
    by (intro scaled_ratio_close assms) simp_all
qed









end
